theory Spec2Isabelle
  imports Main
begin

section \<open>Constants of the driver\<close>

definition DefaultSSHUserName :: string where
  "DefaultSSHUserName = ''ubuntu''"

definition CustomerInterface :: string where
  "CustomerInterface = ''https://www.ovh.com/manager/cloud/index.html''"

definition statusTimeout :: nat where
  "statusTimeout = 200"

section \<open>Errors, panics and observable effects\<close>

text \<open>
  A Go \<^verbatim>\<open>error\<close> value is one of: an \<^verbatim>\<open>*ovh.APIError\<close> with its HTTP status code and
  message, any other error handed back by the ovh client (transport, decoding), or an
  error built by this program with \<^verbatim>\<open>fmt.Errorf\<close>, kept by its message.
\<close>

datatype error = APIError int string | ClientError string | Errorf string

text \<open>
  A run-time panic stops the function that raises it; a function that can panic returns
  \<open>Panics p\<close> in place of its results.
\<close>

datatype panic = NilDereference | IndexOutOfRange

datatype 'a go = Panics panic | Returns 'a

text \<open>
  What the program does to the outside world, in order: the HTTP requests it sends through
  the ovh client and the pauses of \<^verbatim>\<open>time.Sleep\<close> (in seconds). Every operation takes the
  trace so far and returns the extended one. The remote side is deterministic in the
  trace: its answer to a request is a function of everything that happened before.
\<close>

datatype effect = Get string | Delete string | Sleep nat

type_synonym trace = "effect list"

section \<open>Data model\<close>

record Project =
  Project_Name :: string
  Project_ID :: string
  Project_Unleash :: bool
  Project_CreationDate :: string
  Project_OrderID :: int
  Project_Status :: string

type_synonym Projects = "string list"

record Flavor =
  Flavor_Region :: string
  Flavor_Name :: string
  Flavor_ID :: string
  Flavor_OS :: string
  Flavor_Vcpus :: int
  Flavor_MemoryGB :: int
  Flavor_DiskSpaceGB :: int
  Flavor_Type :: string

type_synonym Flavors = "Flavor list"

record Image =
  Image_Region :: string
  Image_Name :: string
  Image_ID :: string
  Image_OS :: string
  Image_CreationDate :: string
  Image_Status :: string
  Image_MinDisk :: int
  Image_Visibility :: string

type_synonym Images = "Image list"

type_synonym Regions = "string list"

record Network =
  Network_Status :: string
  Network_Name :: string
  Network_Type :: string
  Network_ID :: string
  Network_VlanID :: int

type_synonym Networks = "Network list"

record Sshkey =
  Sshkey_Name :: string
  Sshkey_ID :: string
  Sshkey_PublicKey :: string
  Sshkey_Fingerprint :: string
  Sshkey_Regions :: Regions

type_synonym Sshkeys = "Sshkey list"

record IP =
  IP_IP :: string
  IP_Type :: string

type_synonym IPs = "IP list"

record NetworkParam =
  NetworkParam_ID :: string

type_synonym NetworkParams = "NetworkParam list"

record Instance =
  Instance_Name :: string
  Instance_ID :: string
  Instance_Status :: string
  Instance_Created :: string
  Instance_Region :: string
  Instance_NetworkParams :: NetworkParams
  Instance_Image :: Image
  Instance_Flavor :: Flavor
  Instance_Sshkey :: Sshkey
  Instance_IPAddresses :: IPs
  Instance_MonthlyBilling :: bool

text \<open>
  The API handle wraps the ovh client, which is made from the endpoint and the three
  credentials.
\<close>

datatype Client = Client string string string string

datatype API = API Client

section \<open>The environment: libraries and the remote side\<close>

text \<open>
  Everything outside the repository is a parameter. \<open>ovh_NewClient\<close> is the error (by its
  message) of \<^verbatim>\<open>ovh.NewClient\<close>, if any. The \<open>http_get_*\<close> fields are \<^verbatim>\<open>client.Get(url, &x)\<close>
  for each type of \<^verbatim>\<open>x\<close> the program decodes into: the answer to a GET of \<open>url\<close> after the
  given trace, an error or the decoded value. \<open>http_delete\<close> is \<^verbatim>\<open>client.Delete(url, nil)\<close>.
  \<open>os_Stat\<close> tells whether \<^verbatim>\<open>os.Stat\<close> succeeds on a path, \<open>filepath_Join\<close> is
  \<^verbatim>\<open>filepath.Join\<close>, and \<open>GenerateRandomID\<close> the identifier \<^verbatim>\<open>mcnutils.GenerateRandomID\<close>
  draws.
\<close>

record env =
  ovh_NewClient :: "string \<Rightarrow> string \<Rightarrow> string \<Rightarrow> string \<Rightarrow> string option"
  http_get_strings :: "trace \<Rightarrow> string \<Rightarrow> error + string list"
  http_get_project :: "trace \<Rightarrow> string \<Rightarrow> error + Project"
  http_get_networks :: "trace \<Rightarrow> string \<Rightarrow> error + Networks"
  http_get_flavors :: "trace \<Rightarrow> string \<Rightarrow> error + Flavors"
  http_get_images :: "trace \<Rightarrow> string \<Rightarrow> error + Images"
  http_get_sshkeys :: "trace \<Rightarrow> string \<Rightarrow> error + Sshkeys"
  http_get_instance :: "trace \<Rightarrow> string \<Rightarrow> error + Instance"
  http_delete :: "trace \<Rightarrow> string \<Rightarrow> error option"
  os_Stat :: "string \<Rightarrow> bool"
  filepath_Join :: "string list \<Rightarrow> string"
  GenerateRandomID :: string

text \<open>
  One GET through the client: the answer of the remote side, and the request appended to
  the trace. The client either fails with an error and leaves its target as it was (nil,
  for a pointer), as the ovh client does on a transport error and on any answer outside
  2xx, or it succeeds and has decoded a value into the target.
\<close>

definition client_Get :: "(trace \<Rightarrow> string \<Rightarrow> error + 'a) \<Rightarrow> string \<Rightarrow> trace \<Rightarrow> (error + 'a) \<times> trace" where
  "client_Get answer url tr = (answer tr url, tr @ [Get url])"

definition client_Delete :: "env \<Rightarrow> string \<Rightarrow> trace \<Rightarrow> error option \<times> trace" where
  "client_Delete e url tr = (http_delete e tr url, tr @ [Delete url])"

section \<open>Library functions on strings\<close>

text \<open>\<^verbatim>\<open>strings.HasPrefix(s, prefix)\<close>.\<close>

definition HasPrefix :: "string \<Rightarrow> string \<Rightarrow> bool" where
  "HasPrefix s pre = (length s \<ge> length pre \<and> take (length pre) s = pre)"

text \<open>\<^verbatim>\<open>strings.Join(elems, sep)\<close>.\<close>

fun strings_Join :: "string list \<Rightarrow> string \<Rightarrow> string" where
  "strings_Join [] sep = []"
| "strings_Join [x] sep = x"
| "strings_Join (x # y # ys) sep = x @ sep @ strings_Join (y # ys) sep"

text \<open>The verb \<^verbatim>\<open>%d\<close> of \<^verbatim>\<open>fmt\<close>: a natural number, and an integer, in decimal.\<close>

fun Sprintf_nat :: "nat \<Rightarrow> string" where
  "Sprintf_nat n =
     (if n < 10 then [''0123456789'' ! n]
      else Sprintf_nat (n div 10) @ [''0123456789'' ! (n mod 10)])"

declare Sprintf_nat.simps [simp del]

definition Sprintf_d :: "int \<Rightarrow> string" where
  "Sprintf_d i = (if i < 0 then CHR ''-'' # Sprintf_nat (nat (- i)) else Sprintf_nat (nat i))"

section \<open>The API client\<close>

text \<open>
  The methods of \<^verbatim>\<open>*API\<close> never read their receiver beyond the client it holds, so the
  model drops it; a call on a nil handle is modelled at the call site.
\<close>

definition NewAPI :: "env \<Rightarrow> string \<Rightarrow> string \<Rightarrow> string \<Rightarrow> string \<Rightarrow> API \<times> string option" where
  "NewAPI e endpoint applicationKey applicationSecret consumerKey =
     (API (Client endpoint applicationKey applicationSecret consumerKey),
      ovh_NewClient e endpoint applicationKey applicationSecret consumerKey)"

definition GetProjects :: "env \<Rightarrow> trace \<Rightarrow> (error + Projects) \<times> trace" where
  "GetProjects e tr = client_Get (http_get_strings e) ''/cloud/project'' tr"

definition GetProject :: "env \<Rightarrow> string \<Rightarrow> trace \<Rightarrow> (error + Project) \<times> trace" where
  "GetProject e projectID tr = client_Get (http_get_project e) (''/cloud/project/'' @ projectID) tr"

text \<open>The second loop of \<^verbatim>\<open>GetProjectByName\<close>: fetch each project and compare its name.\<close>

fun scanProjectsByName :: "env \<Rightarrow> string \<Rightarrow> Projects \<Rightarrow> trace \<Rightarrow> (error + Project) \<times> trace" where
  "scanProjectsByName e projectName [] tr =
     (Inl (Errorf (''Project '' @ [CHR 0x27] @ projectName @ [CHR 0x27]
        @ '' does not exist on OVH cloud. To create or rename a project, please visit ''
        @ CustomerInterface)), tr)"
| "scanProjectsByName e projectName (projectID # rest) tr =
     (case GetProject e projectID tr of
        (Inl err, tr') \<Rightarrow> (Inl err, tr')
      | (Inr project, tr') \<Rightarrow>
          if Project_Name project = projectName then (Inr project, tr')
          else scanProjectsByName e projectName rest tr')"

definition GetProjectByName :: "env \<Rightarrow> string \<Rightarrow> trace \<Rightarrow> (error + Project) \<times> trace" where
  "GetProjectByName e projectName tr =
     (case GetProjects e tr of
        (Inl err, tr') \<Rightarrow> (Inl err, tr')
      | (Inr projects, tr') \<Rightarrow>
          (case find (\<lambda>projectID. projectID = projectName) projects of
             Some projectID \<Rightarrow> GetProject e projectID tr'
           | None \<Rightarrow> scanProjectsByName e projectName projects tr'))"

definition GetNetworks :: "env \<Rightarrow> string \<Rightarrow> bool \<Rightarrow> trace \<Rightarrow> (error + Networks) \<times> trace" where
  "GetNetworks e projectID privateNet tr =
     (let url = (if privateNet = True
                 then ''/cloud/project/'' @ projectID @ ''/network/private''
                 else ''/cloud/project/'' @ projectID @ ''/network/public'')
      in client_Get (http_get_networks e) url tr)"

text \<open>
  \<^verbatim>\<open>networks[0]\<close> on an empty slice is a run-time panic (index out of range), so the
  result is a \<open>go\<close> value.
\<close>

definition GetPublicNetworkID :: "env \<Rightarrow> string \<Rightarrow> trace \<Rightarrow> (error + string) go \<times> trace" where
  "GetPublicNetworkID e projectID tr =
     (case GetNetworks e projectID False tr of
        (Inl err, tr') \<Rightarrow> (Returns (Inl err), tr')
      | (Inr networks, tr') \<Rightarrow>
          (case networks of
             [] \<Rightarrow> (Panics IndexOutOfRange, tr')
           | n # _ \<Rightarrow> (Returns (Inr (Network_ID n)), tr')))"

fun findNetwork :: "string \<Rightarrow> Networks \<Rightarrow> Network option" where
  "findNetwork networkName [] = None"
| "findNetwork networkName (network # rest) =
     (if Sprintf_d (Network_VlanID network) = networkName \<or> Network_Name network = networkName
      then Some network else findNetwork networkName rest)"

definition GetPrivateNetworkByName :: "env \<Rightarrow> string \<Rightarrow> string \<Rightarrow> trace \<Rightarrow> (error + Network) \<times> trace" where
  "GetPrivateNetworkByName e projectID networkName tr =
     (case GetNetworks e projectID True tr of
        (Inl err, tr') \<Rightarrow> (Inl err, tr')
      | (Inr networks, tr') \<Rightarrow>
          (case findNetwork networkName networks of
             Some network \<Rightarrow> (Inr network, tr')
           | None \<Rightarrow>
               (Inl (Errorf (''Invalid private network '' @ networkName
                  @ ''. List of valid private networks include ''
                  @ strings_Join (map Network_Name networks) '', '')), tr')))"

definition GetRegions :: "env \<Rightarrow> string \<Rightarrow> trace \<Rightarrow> (error + Regions) \<times> trace" where
  "GetRegions e projectID tr =
     client_Get (http_get_strings e) (''/cloud/project/'' @ projectID @ ''/region'') tr"

definition GetFlavors :: "env \<Rightarrow> string \<Rightarrow> string \<Rightarrow> trace \<Rightarrow> (error + Flavors) \<times> trace" where
  "GetFlavors e projectID region tr =
     client_Get (http_get_flavors e) (''/cloud/project/'' @ projectID @ ''/flavor?region='' @ region) tr"

fun findFlavor :: "string \<Rightarrow> Flavors \<Rightarrow> Flavor option" where
  "findFlavor flavorName [] = None"
| "findFlavor flavorName (flavor # rest) =
     (if Flavor_OS flavor \<noteq> ''linux'' then findFlavor flavorName rest
      else if Flavor_ID flavor = flavorName \<or> Flavor_Name flavor = flavorName then Some flavor
      else findFlavor flavorName rest)"

definition GetFlavorByName :: "env \<Rightarrow> string \<Rightarrow> string \<Rightarrow> string \<Rightarrow> trace \<Rightarrow> (error + Flavor) \<times> trace" where
  "GetFlavorByName e projectID region flavorName tr =
     (case GetFlavors e projectID region tr of
        (Inl err, tr') \<Rightarrow> (Inl err, tr')
      | (Inr flavors, tr') \<Rightarrow>
          (case findFlavor flavorName flavors of
             Some flavor \<Rightarrow> (Inr flavor, tr')
           | None \<Rightarrow>
               (Inl (Errorf (''Flavor '' @ [CHR 0x27] @ flavorName @ [CHR 0x27]
                  @ '' does not exist on OVH cloud. To find a list of available flavors, please visit ''
                  @ CustomerInterface)), tr')))"

definition GetImages :: "env \<Rightarrow> string \<Rightarrow> string \<Rightarrow> trace \<Rightarrow> (error + Images) \<times> trace" where
  "GetImages e projectID region tr =
     client_Get (http_get_images e)
       (''/cloud/project/'' @ projectID @ ''/image?osType=linux&region='' @ region) tr"

fun findImage :: "string \<Rightarrow> Images \<Rightarrow> Image option" where
  "findImage imageName [] = None"
| "findImage imageName (img # rest) =
     (if Image_OS img \<noteq> ''linux'' then findImage imageName rest
      else if Image_ID img = imageName \<or> Image_Name img = imageName then Some img
      else findImage imageName rest)"

definition GetImageByName :: "env \<Rightarrow> string \<Rightarrow> string \<Rightarrow> string \<Rightarrow> trace \<Rightarrow> (error + Image) \<times> trace" where
  "GetImageByName e projectID region imageName tr =
     (case GetImages e projectID region tr of
        (Inl err, tr') \<Rightarrow> (Inl err, tr')
      | (Inr images, tr') \<Rightarrow>
          (case findImage imageName images of
             Some img \<Rightarrow> (Inr img, tr')
           | None \<Rightarrow>
               (Inl (Errorf (''Image '' @ [CHR 0x27] @ imageName @ [CHR 0x27]
                  @ '' does not exist on OVH cloud. To find a list of available images, please visit ''
                  @ CustomerInterface)), tr')))"




text \<open>
  The type assertion \<^verbatim>\<open>err.(*ovh.APIError)\<close> with code 404 resets the error to nil; every
  other error, and nil, is returned as it is.
\<close>

definition DeleteSshkey :: "env \<Rightarrow> string \<Rightarrow> string \<Rightarrow> trace \<Rightarrow> error option \<times> trace" where
  "DeleteSshkey e projectID instanceID tr =
     (let url = ''/cloud/project/'' @ projectID @ ''/sshkey/'' @ instanceID in
      case client_Delete e url tr of
        (Some (APIError code msg), tr') \<Rightarrow> (if code = 404 then None else Some (APIError code msg), tr')
      | (err, tr') \<Rightarrow> (err, tr'))"

definition DeleteInstance :: "env \<Rightarrow> string \<Rightarrow> string \<Rightarrow> trace \<Rightarrow> error option \<times> trace" where
  "DeleteInstance e projectID instanceID tr =
     (let url = ''/cloud/project/'' @ projectID @ ''/instance/'' @ instanceID in
      case client_Delete e url tr of
        (Some (APIError code msg), tr') \<Rightarrow> (if code = 404 then None else Some (APIError code msg), tr')
      | (err, tr') \<Rightarrow> (err, tr'))"

text \<open>
  \<^verbatim>\<open>GetInstance\<close> returns the pair of Go: the instance pointer (nil, here \<open>None\<close>, when the
  GET failed and left it untouched) and the error, which the source sets to the literal
  \<^verbatim>\<open>nil\<close> in its return statement.
\<close>

definition GetInstance :: "env \<Rightarrow> string \<Rightarrow> string \<Rightarrow> trace \<Rightarrow> (Instance option \<times> error option) \<times> trace" where
  "GetInstance e projectID instanceID tr =
     (let url = ''/cloud/project/'' @ projectID @ ''/instance/'' @ instanceID in
      case client_Get (http_get_instance e) url tr of
        (Inl err, tr') \<Rightarrow> ((None, None), tr')
      | (Inr instance, tr') \<Rightarrow> ((Some instance, None), tr'))"

section \<open>The driver\<close>

text \<open>
  The driver with the fields of the embedded \<^verbatim>\<open>drivers.BaseDriver\<close> it uses (the first
  nine) and its own. A nil \<^verbatim>\<open>client\<close> is \<open>None\<close>.
\<close>

record Driver =
  IPAddress :: string
  MachineName :: string
  SSHUser :: string
  SSHPort :: int
  SSHKeyPath :: string
  StorePath :: string
  SwarmMaster :: bool
  SwarmHost :: string
  SwarmDiscovery :: string
  ProjectName :: string
  FlavorName :: string
  RegionName :: string
  PrivateNetworkName :: string
  BillingPeriod :: string
  Endpoint :: string
  ProjectID :: string
  FlavorID :: string
  ImageID :: string
  InstanceID :: string
  KeyPairName :: string
  KeyPairID :: string
  NetworkIDs :: "string list"
  ApplicationKey :: string
  ApplicationSecret :: string
  ConsumerKey :: string
  client :: "API option"

text \<open>The driver that \<^verbatim>\<open>main\<close> registers: zero values but for the SSH user and port.\<close>

definition NewDriver :: Driver where
  "NewDriver = \<lparr> IPAddress = [], MachineName = [], SSHUser = DefaultSSHUserName, SSHPort = 22,
     SSHKeyPath = [], StorePath = [], SwarmMaster = False, SwarmHost = [], SwarmDiscovery = [],
     ProjectName = [], FlavorName = [], RegionName = [], PrivateNetworkName = [],
     BillingPeriod = [], Endpoint = [], ProjectID = [], FlavorID = [], ImageID = [],
     InstanceID = [], KeyPairName = [], KeyPairID = [], NetworkIDs = [],
     ApplicationKey = [], ApplicationSecret = [], ConsumerKey = [], client = None \<rparr>"

text \<open>The options of the command line, as \<^verbatim>\<open>drivers.DriverOptions\<close> reads them.\<close>

record DriverOptions =
  flag_String :: "string \<Rightarrow> string"
  flag_Bool :: "string \<Rightarrow> bool"

definition getClient :: "env \<Rightarrow> Driver \<Rightarrow> (error + API) \<times> Driver" where
  "getClient e d =
     (case client d of
        None \<Rightarrow>
          (case NewAPI e (Endpoint d) (ApplicationKey d) (ApplicationSecret d) (ConsumerKey d) of
             (c, Some msg) \<Rightarrow>
               (Inl (Errorf (''Could not create a connection to OVH API. You may want to visit: https://github.com/yadutaf/docker-machine-driver-ovh#example-usage. The original error was: '' @ msg)), d)
           | (c, None) \<Rightarrow> (Inr c, d\<lparr>client := Some c\<rparr>))
      | Some c \<Rightarrow> (Inr c, d))"

definition SetConfigFromFlags :: "DriverOptions \<Rightarrow> Driver \<Rightarrow> error option \<times> Driver" where
  "SetConfigFromFlags flags d =
     (None,
      d\<lparr> ApplicationKey := flag_String flags ''ovh-application-key'',
         ApplicationSecret := flag_String flags ''ovh-application-secret'',
         ConsumerKey := flag_String flags ''ovh-consumer-key'',
         Endpoint := flag_String flags ''ovh-endpoint'',
         ProjectName := flag_String flags ''ovh-project'',
         RegionName := flag_String flags ''ovh-region'',
         FlavorName := flag_String flags ''ovh-flavor'',
         ImageID := flag_String flags ''ovh-image'',
         PrivateNetworkName := flag_String flags ''ovh-private-network'',
         KeyPairName := flag_String flags ''ovh-ssh-key'',
         BillingPeriod := flag_String flags ''ovh-billing-period'',
         SwarmMaster := flag_Bool flags ''swarm-master'',
         SwarmHost := flag_String flags ''swarm-host'',
         SwarmDiscovery := flag_String flags ''swarm-discovery'',
         SSHUser := flag_String flags ''ovh-ssh-user'' \<rparr>)"

subsection \<open>PreCreateCheck\<close>

text \<open>
  The blocks of \<^verbatim>\<open>PreCreateCheck\<close>, one definition for each, under the name of its comment
  in the source. Each returns the error it stops with (if any), the driver as the block
  leaves it, and the trace.
\<close>

text \<open>The loop that lists the names of several projects (the id where the fetch fails).\<close>

fun projectNames :: "env \<Rightarrow> Projects \<Rightarrow> trace \<Rightarrow> string list \<times> trace" where
  "projectNames e [] tr = ([], tr)"
| "projectNames e (projectID # rest) tr =
     (case GetProject e projectID tr of
        (Inl err, tr') \<Rightarrow> (case projectNames e rest tr' of (names, tr'') \<Rightarrow> (projectID # names, tr''))
      | (Inr project, tr') \<Rightarrow>
          (case projectNames e rest tr' of (names, tr'') \<Rightarrow> (Project_Name project # names, tr'')))"

definition validateProject :: "env \<Rightarrow> Driver \<Rightarrow> trace \<Rightarrow> error option \<times> Driver \<times> trace" where
  "validateProject e d tr =
     (if ProjectName d \<noteq> [] then
        (case GetProjectByName e (ProjectName d) tr of
           (Inl err, tr') \<Rightarrow> (Some err, d, tr')
         | (Inr project, tr') \<Rightarrow> (None, d\<lparr>ProjectID := Project_ID project\<rparr>, tr'))
      else
        (case GetProjects e tr of
           (Inl err, tr') \<Rightarrow> (Some err, d, tr')
         | (Inr projects, tr') \<Rightarrow>
             if length projects = 1 then (None, d\<lparr>ProjectID := projects ! 0\<rparr>, tr')
             else if length projects = 0 then
               (Some (Errorf (''No Cloud project could be found. To create a new one, please visit ''
                  @ CustomerInterface)), d, tr')
             else
               (case projectNames e projects tr' of
                  (names, tr'') \<Rightarrow>
                    (Some (Errorf (''Multiple Cloud project found ('' @ strings_Join names '', ''
                       @ ''), to select one, use '' @ [CHR 0x27] @ ''--ovh-project'' @ [CHR 0x27]
                       @ '' option'')), d, tr''))))"

definition validateRegion :: "env \<Rightarrow> Driver \<Rightarrow> trace \<Rightarrow> error option \<times> Driver \<times> trace" where
  "validateRegion e d tr =
     (case GetRegions e (ProjectID d) tr of
        (Inl err, tr') \<Rightarrow> (Some err, d, tr')
      | (Inr regions, tr') \<Rightarrow>
          if RegionName d \<in> set regions then (None, d, tr')
          else
            (Some (Errorf (''Invalid region '' @ RegionName d
               @ ''. For a list of valid ovh regions, please visis '' @ CustomerInterface)), d, tr'))"

definition validateFlavor :: "env \<Rightarrow> Driver \<Rightarrow> trace \<Rightarrow> error option \<times> Driver \<times> trace" where
  "validateFlavor e d tr =
     (case GetFlavorByName e (ProjectID d) (RegionName d) (FlavorName d) tr of
        (Inl err, tr') \<Rightarrow> (Some err, d, tr')
      | (Inr flavor, tr') \<Rightarrow> (None, d\<lparr>FlavorID := Flavor_ID flavor\<rparr>, tr'))"

definition validateImage :: "env \<Rightarrow> Driver \<Rightarrow> trace \<Rightarrow> error option \<times> Driver \<times> trace" where
  "validateImage e d tr =
     (case GetImageByName e (ProjectID d) (RegionName d) (ImageID d) tr of
        (Inl err, tr') \<Rightarrow> (Some err, d, tr')
      | (Inr img, tr') \<Rightarrow> (None, d\<lparr>ImageID := Image_ID img\<rparr>, tr'))"

text \<open>
  The private network block appends to \<^verbatim>\<open>d.NetworkIDs\<close>; the private id stays appended
  when the public lookup then fails or panics.
\<close>

definition validatePrivateNetwork :: "env \<Rightarrow> Driver \<Rightarrow> trace \<Rightarrow> error option go \<times> Driver \<times> trace" where
  "validatePrivateNetwork e d tr =
     (if PrivateNetworkName d \<noteq> [] then
        (case GetPrivateNetworkByName e (ProjectID d) (PrivateNetworkName d) tr of
           (Inl err, tr') \<Rightarrow> (Returns (Some err), d, tr')
         | (Inr privateNetwork, tr') \<Rightarrow>
             (let d1 = d\<lparr>NetworkIDs := NetworkIDs d @ [Network_ID privateNetwork]\<rparr> in
              case GetPublicNetworkID e (ProjectID d1) tr' of
                (Panics p, tr'') \<Rightarrow> (Panics p, d1, tr'')
              | (Returns (Inl err), tr'') \<Rightarrow> (Returns (Some err), d1, tr'')
              | (Returns (Inr publicNetworkID), tr'') \<Rightarrow>
                  (Returns None, d1\<lparr>NetworkIDs := NetworkIDs d1 @ [publicNetworkID]\<rparr>, tr'')))
      else (Returns None, d, tr))"

text \<open>\<^verbatim>\<open>strings.Replace(*s, ".", "_", -1)\<close>: every dot becomes an underscore.\<close>

definition sanitizeKeyPairName :: "string \<Rightarrow> string" where
  "sanitizeKeyPairName s = map (\<lambda>c. if c = CHR ''.'' then CHR ''_'' else c) s"

text \<open>\<^verbatim>\<open>BaseDriver.ResolveStorePath\<close>.\<close>

definition ResolveStorePath :: "env \<Rightarrow> Driver \<Rightarrow> string \<Rightarrow> string" where
  "ResolveStorePath e d file = filepath_Join e [StorePath d, ''machines'', MachineName d, file]"

definition selectKeyPair :: "env \<Rightarrow> Driver \<Rightarrow> Driver" where
  "selectKeyPair e d =
     (let keyPath = filepath_Join e [StorePath d, ''sshkeys'', KeyPairName d] in
      if length (KeyPairName d) \<noteq> 0 then
        (if os_Stat e keyPath then d\<lparr>SSHKeyPath := keyPath\<rparr> else d)
      else
        (let d1 = d\<lparr>KeyPairName :=
                   sanitizeKeyPairName (MachineName d @ ''-'' @ GenerateRandomID e)\<rparr>
         in d1\<lparr>SSHKeyPath := ResolveStorePath e d1 (KeyPairName d1)\<rparr>))"

definition PreCreateCheck :: "env \<Rightarrow> Driver \<Rightarrow> trace \<Rightarrow> error option go \<times> Driver \<times> trace" where
  "PreCreateCheck e d tr =
     (case getClient e d of
        (Inl err, d0) \<Rightarrow> (Returns (Some err), d0, tr)
      | (Inr c, d0) \<Rightarrow>
          if BillingPeriod d0 \<noteq> ''monthly'' \<and> BillingPeriod d0 \<noteq> ''hourly'' then
            (Returns (Some (Errorf (''Invalid billing period '' @ [CHR 0x27] @ BillingPeriod d0
               @ [CHR 0x27] @ ''. Please select one of '' @ [CHR 0x27] @ ''hourly'' @ [CHR 0x27]
               @ '', '' @ [CHR 0x27] @ ''monthly'' @ [CHR 0x27]))), d0, tr)
          else
            (case validateProject e d0 tr of
               (Some err, d1, tr1) \<Rightarrow> (Returns (Some err), d1, tr1)
             | (None, d1, tr1) \<Rightarrow>
            (case validateRegion e d1 tr1 of
               (Some err, d2, tr2) \<Rightarrow> (Returns (Some err), d2, tr2)
             | (None, d2, tr2) \<Rightarrow>
            (case validateFlavor e d2 tr2 of
               (Some err, d3, tr3) \<Rightarrow> (Returns (Some err), d3, tr3)
             | (None, d3, tr3) \<Rightarrow>
            (case validateImage e d3 tr3 of
               (Some err, d4, tr4) \<Rightarrow> (Returns (Some err), d4, tr4)
             | (None, d4, tr4) \<Rightarrow>
            (case validatePrivateNetwork e d4 tr4 of
               (Panics p, d5, tr5) \<Rightarrow> (Panics p, d5, tr5)
             | (Returns (Some err), d5, tr5) \<Rightarrow> (Returns (Some err), d5, tr5)
             | (Returns None, d5, tr5) \<Rightarrow> (Returns None, selectKeyPair e d5, tr5)))))))"

subsection \<open>Waiting for a status\<close>

text \<open>
  The closure that \<^verbatim>\<open>waitForInstanceStatus\<close> hands to the wait: it assigns the captured
  result variable \<^verbatim>\<open>instance\<close> (third argument, second result) and reads
  \<^verbatim>\<open>instance.Status\<close>, which panics on a nil pointer; so does the call through a nil
  \<^verbatim>\<open>d.client\<close>.
\<close>

definition pollInstanceStatus ::
  "env \<Rightarrow> Driver \<Rightarrow> string \<Rightarrow> Instance option \<Rightarrow> trace \<Rightarrow> (bool \<times> error option) go \<times> Instance option \<times> trace" where
  "pollInstanceStatus e d status instance0 tr =
     (case client d of
        None \<Rightarrow> (Panics NilDereference, instance0, tr)
      | Some a \<Rightarrow>
          (case GetInstance e (ProjectID d) (InstanceID d) tr of
             ((instance, Some err), tr') \<Rightarrow> (Returns (True, Some err), instance, tr')
           | ((None, None), tr') \<Rightarrow> (Panics NilDereference, None, tr')
           | ((Some i, None), tr') \<Rightarrow>
               if Instance_Status i = ''ERROR'' then
                 (Returns (True, Some (Errorf ''Instance creation failed. Instance is in ERROR state'')),
                  Some i, tr')
               else if Instance_Status i = status then (Returns (True, None), Some i, tr')
               else (Returns (False, None), Some i, tr')))"

text \<open>
  \<^verbatim>\<open>mcnutils.WaitForSpecificOrError(f, maxAttempts, waitInterval)\<close> of docker-machine: call
  \<open>f\<close> up to \<open>maxAttempts\<close> times, stop with its error or when it says stop, sleep
  \<open>waitInterval\<close> after every other call, and fail when the attempts are used up. \<open>f\<close>
  works on the variables it captures (\<open>v\<close>) and the trace. \<open>waitLoop\<close> is its loop, the
  fourth argument the number of iterations left.
\<close>

fun waitLoop ::
  "('v \<Rightarrow> trace \<Rightarrow> (bool \<times> error option) go \<times> 'v \<times> trace) \<Rightarrow> nat \<Rightarrow> nat \<Rightarrow> nat \<Rightarrow> 'v \<Rightarrow> trace
     \<Rightarrow> error option go \<times> 'v \<times> trace" where
  "waitLoop f maxAttempts waitInterval 0 v tr =
     (Returns (Some (Errorf (''Maximum number of retries ('' @ Sprintf_nat maxAttempts @ '') exceeded''))),
      v, tr)"
| "waitLoop f maxAttempts waitInterval (Suc n) v tr =
     (case f v tr of
        (Panics p, v', tr') \<Rightarrow> (Panics p, v', tr')
      | (Returns (stop, Some err), v', tr') \<Rightarrow> (Returns (Some err), v', tr')
      | (Returns (stop, None), v', tr') \<Rightarrow>
          if stop then (Returns None, v', tr')
          else waitLoop f maxAttempts waitInterval n v' (tr' @ [Sleep waitInterval]))"

definition WaitForSpecificOrError ::
  "('v \<Rightarrow> trace \<Rightarrow> (bool \<times> error option) go \<times> 'v \<times> trace) \<Rightarrow> nat \<Rightarrow> nat \<Rightarrow> 'v \<Rightarrow> trace
     \<Rightarrow> error option go \<times> 'v \<times> trace" where
  "WaitForSpecificOrError f maxAttempts waitInterval v tr =
     waitLoop f maxAttempts waitInterval maxAttempts v tr"

text \<open>
  \<^verbatim>\<open>return instance, mcnutils.WaitForSpecificOrError(...)\<close>: the call runs first and the
  result variable \<^verbatim>\<open>instance\<close>, nil at entry, is read after it, so the caller gets the
  instance of the last poll. (The language leaves the order of a variable read and a call
  among the operands of a return open; the Go compiler evaluates the call first, and
  \<^verbatim>\<open>Create\<close> relies on it when it reads the addresses of the instance.) The budget is
  \<open>statusTimeout / 4\<close> attempts, the pause 4 seconds.
\<close>

definition waitForInstanceStatus ::
  "env \<Rightarrow> Driver \<Rightarrow> string \<Rightarrow> trace \<Rightarrow> (Instance option \<times> error option) go \<times> trace" where
  "waitForInstanceStatus e d status tr =
     (case WaitForSpecificOrError (pollInstanceStatus e d status) (statusTimeout div 4) 4 None tr of
        (Panics p, instance, tr') \<Rightarrow> (Panics p, tr')
      | (Returns err, instance, tr') \<Rightarrow> (Returns (instance, err), tr'))"

subsection \<open>Remove\<close>

definition Remove :: "env \<Rightarrow> Driver \<Rightarrow> trace \<Rightarrow> error option \<times> Driver \<times> trace" where
  "Remove e d tr =
     (case getClient e d of
        (Inl err, d0) \<Rightarrow> (Some err, d0, tr)
      | (Inr c, d0) \<Rightarrow>
          (case (if InstanceID d0 \<noteq> [] then DeleteInstance e (ProjectID d0) (InstanceID d0) tr
                 else (None, tr)) of
             (Some err, tr1) \<Rightarrow> (Some err, d0, tr1)
           | (None, tr1) \<Rightarrow>
               if \<not> HasPrefix (KeyPairName d0) (MachineName d0) then (None, d0, tr1)
               else if KeyPairID d0 \<noteq> [] then
                 (case DeleteSshkey e (ProjectID d0) (KeyPairID d0) tr1 of
                    (Some err, tr2) \<Rightarrow> (Some err, d0, tr2)
                  | (None, tr2) \<Rightarrow> (None, d0, tr2))
               else (None, d0, tr1)))"

section \<open>Vocabulary of the properties\<close>

text \<open>The URLs the client builds, named for the statements below.\<close>

definition instanceURL :: "string \<Rightarrow> string \<Rightarrow> string" where
  "instanceURL projectID instanceID = ''/cloud/project/'' @ projectID @ ''/instance/'' @ instanceID"

definition sshkeyURL :: "string \<Rightarrow> string \<Rightarrow> string" where
  "sshkeyURL projectID keyID = ''/cloud/project/'' @ projectID @ ''/sshkey/'' @ keyID"





definition publicNetworkURL :: "string \<Rightarrow> string" where
  "publicNetworkURL projectID = ''/cloud/project/'' @ projectID @ ''/network/public''"

text \<open>
  The trace of \<open>k\<close> polls of an instance that each end in a pause of 4 seconds, and the
  instance the remote side hands out at poll number \<open>k\<close> (counted from 0) of a wait that
  starts at trace \<open>tr\<close>, if that fetch succeeds.
\<close>

definition pollTrace :: "string \<Rightarrow> nat \<Rightarrow> trace" where
  "pollTrace url k = concat (replicate k [Get url, Sleep 4])"

definition polled :: "env \<Rightarrow> Driver \<Rightarrow> trace \<Rightarrow> nat \<Rightarrow> Instance option" where
  "polled e d tr k =
     (case http_get_instance e (tr @ pollTrace (instanceURL (ProjectID d) (InstanceID d)) k)
             (instanceURL (ProjectID d) (InstanceID d)) of
        Inl err \<Rightarrow> None
      | Inr i \<Rightarrow> Some i)"

text \<open>The error that rejects a billing period.\<close>

definition invalidBillingPeriod :: "string \<Rightarrow> error" where
  "invalidBillingPeriod period =
     Errorf (''Invalid billing period '' @ [CHR 0x27] @ period @ [CHR 0x27]
       @ ''. Please select one of '' @ [CHR 0x27] @ ''hourly'' @ [CHR 0x27]
       @ '', '' @ [CHR 0x27] @ ''monthly'' @ [CHR 0x27])"

text \<open>A remote not-found answer to a deletion counts as success.\<close>

definition notFoundIsSuccess :: "error option \<Rightarrow> error option" where
  "notFoundIsSuccess r =
     (case r of Some (APIError code msg) \<Rightarrow> if code = 404 then None else r | _ \<Rightarrow> r)"

text \<open>
  The driver as it stands before \<^verbatim>\<open>PreCreateCheck\<close>: the registered driver with its machine
  name and store path, configured from the flags.
\<close>

definition configuredDriver :: "DriverOptions \<Rightarrow> string \<Rightarrow> string \<Rightarrow> Driver" where
  "configuredDriver flags machineName storePath =
     snd (SetConfigFromFlags flags (NewDriver\<lparr>MachineName := machineName, StorePath := storePath\<rparr>))"

section \<open>A sample cloud\<close>

text \<open>
  One project \<open>acme\<close> (id \<open>pr-1\<close>) with region \<open>GRA1\<close>, flavor \<open>b2-7\<close>, image
  \<open>Ubuntu 20.04\<close>, a private and a public network. A deletion answers 404 once the same
  deletion has been sent before.
\<close>

definition acme :: Project where
  "acme = \<lparr> Project_Name = ''acme'', Project_ID = ''pr-1'', Project_Unleash = False,
     Project_CreationDate = ''2016-04-01'', Project_OrderID = 1, Project_Status = ''ok'' \<rparr>"

definition b2_7 :: Flavor where
  "b2_7 = \<lparr> Flavor_Region = ''GRA1'', Flavor_Name = ''b2-7'', Flavor_ID = ''f-9'',
     Flavor_OS = ''linux'', Flavor_Vcpus = 2, Flavor_MemoryGB = 7, Flavor_DiskSpaceGB = 50,
     Flavor_Type = ''ovh.ssd.eg'' \<rparr>"

definition ubuntu :: Image where
  "ubuntu = \<lparr> Image_Region = ''GRA1'', Image_Name = ''Ubuntu 20.04'', Image_ID = ''im-4'',
     Image_OS = ''linux'', Image_CreationDate = ''2020-04-23'', Image_Status = ''active'',
     Image_MinDisk = 0, Image_Visibility = ''public'' \<rparr>"

definition vrack :: Network where
  "vrack = \<lparr> Network_Status = ''ACTIVE'', Network_Name = ''vrack'', Network_Type = ''private'',
     Network_ID = ''net-priv'', Network_VlanID = 42 \<rparr>"

definition extnet :: Network where
  "extnet = \<lparr> Network_Status = ''ACTIVE'', Network_Name = ''Ext-Net'', Network_Type = ''public'',
     Network_ID = ''net-pub'', Network_VlanID = 0 \<rparr>"

definition keyOf :: "string \<Rightarrow> string \<Rightarrow> Sshkey" where
  "keyOf name ident = \<lparr> Sshkey_Name = name, Sshkey_ID = ident, Sshkey_PublicKey = ''ssh-rsa AAAA'',
     Sshkey_Fingerprint = ''00:11'', Sshkey_Regions = [''GRA1''] \<rparr>"

definition instanceIn :: "string \<Rightarrow> Instance" where
  "instanceIn status = \<lparr> Instance_Name = ''node'', Instance_ID = ''i-1'', Instance_Status = status,
     Instance_Created = ''2020-05-01'', Instance_Region = ''GRA1'', Instance_NetworkParams = [],
     Instance_Image = ubuntu, Instance_Flavor = b2_7, Instance_Sshkey = keyOf ''my-key'' ''k-7'',
     Instance_IPAddresses = [\<lparr> IP_IP = ''203.0.113.5'', IP_Type = ''public'' \<rparr>],
     Instance_MonthlyBilling = False \<rparr>"

definition notFound :: error where
  "notFound = APIError 404 ''Not Found''"

text \<open>
  The instance answers of a remote side that goes through the given statuses, one for each
  GET already in the trace, and stays in the last.
\<close>

fun isGet :: "effect \<Rightarrow> bool" where
  "isGet (Get url) = True"
| "isGet (Delete url) = False"
| "isGet (Sleep s) = False"

definition statusesInOrder :: "string list \<Rightarrow> trace \<Rightarrow> string \<Rightarrow> error + Instance" where
  "statusesInOrder statuses tr url =
     Inr (instanceIn (statuses ! min (length (filter isGet tr)) (length statuses - 1)))"

definition sampleCloud :: env where
  "sampleCloud = \<lparr>
     ovh_NewClient = (\<lambda>endpoint ak as ck. None),
     http_get_strings = (\<lambda>tr url.
        if url = ''/cloud/project'' then Inr [''pr-1'']
        else if url = ''/cloud/project/pr-1/region'' then Inr [''GRA1'', ''SBG1'']
        else Inl notFound),
     http_get_project = (\<lambda>tr url. if url = ''/cloud/project/pr-1'' then Inr acme else Inl notFound),
     http_get_networks = (\<lambda>tr url.
        if url = ''/cloud/project/pr-1/network/private'' then Inr [vrack]
        else if url = ''/cloud/project/pr-1/network/public'' then Inr [extnet]
        else Inl notFound),
     http_get_flavors = (\<lambda>tr url. Inr [b2_7]),
     http_get_images = (\<lambda>tr url. Inr [ubuntu]),
     http_get_sshkeys = (\<lambda>tr url. Inr [keyOf ''x'' ''a'', keyOf ''y'' ''x'']),
     http_get_instance = statusesInOrder [''BUILDING'', ''BUILDING'', ''ACTIVE''],
     http_delete = (\<lambda>tr url. if Delete url \<in> set tr then Some notFound else None),
     os_Stat = (\<lambda>path. False),
     filepath_Join = (\<lambda>parts. strings_Join parts ''/''),
     GenerateRandomID = ''0a1b2c'' \<rparr>"

definition sampleFlags :: DriverOptions where
  "sampleFlags = \<lparr>
     flag_String = (\<lambda>name.
        if name = ''ovh-project'' then ''acme''
        else if name = ''ovh-region'' then ''GRA1''
        else if name = ''ovh-flavor'' then ''b2-7''
        else if name = ''ovh-image'' then ''Ubuntu 20.04''
        else if name = ''ovh-billing-period'' then ''hourly''
        else if name = ''ovh-ssh-user'' then ''ubuntu''
        else []),
     flag_Bool = (\<lambda>name. False) \<rparr>"

text \<open>The sample flags with the private network \<open>vrack\<close> asked for.\<close>

definition privateFlags :: DriverOptions where
  "privateFlags = sampleFlags\<lparr> flag_String :=
     (\<lambda>name. if name = ''ovh-private-network'' then ''vrack'' else flag_String sampleFlags name) \<rparr>"

text \<open>A machine \<open>node.1\<close> configured from the sample flags, and the same after a creation.\<close>

definition sampleDriver :: Driver where
  "sampleDriver = configuredDriver sampleFlags ''node.1'' ''/store''"

definition createdDriver :: Driver where
  "createdDriver = sampleDriver\<lparr> ProjectID := ''pr-1'', InstanceID := ''i-1'',
     KeyPairName := ''node.1-key'', KeyPairID := ''k-7'',
     client := Some (API (Client [] [] [] [])) \<rparr>"

section \<open>Properties\<close>

subsection \<open>The client operations as functions of the remote answer\<close>

lemma GetInstance_eq:
  "GetInstance e p i tr =
     ((case http_get_instance e tr (instanceURL p i) of Inl err \<Rightarrow> None | Inr x \<Rightarrow> Some x, None),
      tr @ [Get (instanceURL p i)])"
  by (simp add: GetInstance_def client_Get_def instanceURL_def Let_def split: sum.splits)

lemma DeleteInstance_eq:
  "DeleteInstance e p i tr =
     (notFoundIsSuccess (http_delete e tr (instanceURL p i)), tr @ [Delete (instanceURL p i)])"
  by (simp add: DeleteInstance_def client_Delete_def instanceURL_def notFoundIsSuccess_def Let_def
      split: option.splits error.splits)

lemma DeleteSshkey_eq:
  "DeleteSshkey e p k tr =
     (notFoundIsSuccess (http_delete e tr (sshkeyURL p k)), tr @ [Delete (sshkeyURL p k)])"
  by (simp add: DeleteSshkey_def client_Delete_def sshkeyURL_def notFoundIsSuccess_def Let_def
      split: option.splits error.splits)

lemma notFoundIsSuccess_never_404: "notFoundIsSuccess r \<noteq> Some (APIError 404 m)"
  by (auto simp: notFoundIsSuccess_def split: option.splits error.splits)

lemma notFoundIsSuccess_404: "notFoundIsSuccess (Some (APIError 404 m)) = None"
  by (simp add: notFoundIsSuccess_def)

subsection \<open>GetInstance and the error of its GET\<close>

text \<open>
  C1 asks that \<^verbatim>\<open>GetInstance\<close> hand the error of a failed GET to its caller. The source
  returns the literal \<^verbatim>\<open>nil\<close>: against a remote side that answers the GET of the instance
  with status 500, \<^verbatim>\<open>GetInstance\<close> returns a nil instance together with a nil error.
\<close>

theorem GetInstance_drops_error:
  "http_get_instance (sampleCloud\<lparr>http_get_instance := \<lambda>tr url. Inl (APIError 500 ''Internal Server Error'')\<rparr>)
      [] (instanceURL ''pr-1'' ''i-1'') = Inl (APIError 500 ''Internal Server Error'')
   \<and> GetInstance (sampleCloud\<lparr>http_get_instance := \<lambda>tr url. Inl (APIError 500 ''Internal Server Error'')\<rparr>)
      ''pr-1'' ''i-1'' [] = ((None, None), [Get ''/cloud/project/pr-1/instance/i-1''])"
  by (simp add: GetInstance_eq instanceURL_def)

subsection \<open>Deletions\<close>

text \<open>
  C6: the delete operations turn a remote not-found (404) answer into success, for the
  instance and for the ssh key; and of two deletions in sequence the second never fails
  with a not-found error, whatever the remote side answers.
\<close>

theorem delete_not_found_is_success:
  "(http_delete e tr (instanceURL p i) = Some (APIError 404 m) \<longrightarrow>
      DeleteInstance e p i tr = (None, tr @ [Delete (instanceURL p i)]))
   \<and> (http_delete e tr (sshkeyURL p k) = Some (APIError 404 m) \<longrightarrow>
      DeleteSshkey e p k tr = (None, tr @ [Delete (sshkeyURL p k)]))
   \<and> fst (DeleteInstance e p i (snd (DeleteInstance e p i tr))) \<noteq> Some (APIError 404 m)
   \<and> fst (DeleteSshkey e p k (snd (DeleteSshkey e p k tr))) \<noteq> Some (APIError 404 m)"
  by (simp add: DeleteInstance_eq DeleteSshkey_eq notFoundIsSuccess_never_404 notFoundIsSuccess_404)

theorem delete_not_found_is_success_witness:
  "DeleteInstance sampleCloud ''pr-1'' ''i-1'' [] = (None, [Delete (instanceURL ''pr-1'' ''i-1'')])
   \<and> http_delete sampleCloud [Delete (instanceURL ''pr-1'' ''i-1'')] (instanceURL ''pr-1'' ''i-1'')
       = Some (APIError 404 ''Not Found'')
   \<and> DeleteInstance sampleCloud ''pr-1'' ''i-1'' [Delete (instanceURL ''pr-1'' ''i-1'')]
       = (None, [Delete (instanceURL ''pr-1'' ''i-1''), Delete (instanceURL ''pr-1'' ''i-1'')])
   \<and> http_delete sampleCloud [Delete (sshkeyURL ''pr-1'' ''k-7'')] (sshkeyURL ''pr-1'' ''k-7'')
       = Some (APIError 404 ''Not Found'')
   \<and> DeleteSshkey sampleCloud ''pr-1'' ''k-7'' [Delete (sshkeyURL ''pr-1'' ''k-7'')]
       = (None, [Delete (sshkeyURL ''pr-1'' ''k-7''), Delete (sshkeyURL ''pr-1'' ''k-7'')])"
proof -
  let ?iu = "instanceURL ''pr-1'' ''i-1''" and ?ku = "sshkeyURL ''pr-1'' ''k-7''"
  have a: "http_delete sampleCloud [Delete ?iu] ?iu = Some (APIError 404 ''Not Found'')"
    by (simp add: sampleCloud_def notFound_def)
  have b: "http_delete sampleCloud [Delete ?ku] ?ku = Some (APIError 404 ''Not Found'')"
    by (simp add: sampleCloud_def notFound_def)
  have c: "DeleteInstance sampleCloud ''pr-1'' ''i-1'' [] = (None, [Delete ?iu])"
    by (simp add: DeleteInstance_eq sampleCloud_def notFoundIsSuccess_def)
  from delete_not_found_is_success [of sampleCloud "[Delete ?iu]" "''pr-1''" "''i-1''" "''Not Found''" "''k-7''"]
    delete_not_found_is_success [of sampleCloud "[Delete ?ku]" "''pr-1''" "''i-1''" "''Not Found''" "''k-7''"]
    a b c show ?thesis by simp
qed

subsection \<open>The public network of a project\<close>

text \<open>
  C10: \<^verbatim>\<open>GetPublicNetworkID\<close> reads the first element of the list it gets. It panics with
  an index out of range exactly when the remote call succeeds with an empty list, and
  returns no error there; with a first element it returns that network's id, and a failed
  call returns its error.
\<close>

theorem GetPublicNetworkID_partial:
  "((\<exists>p. fst (GetPublicNetworkID e projectID tr) = Panics p)
      = (http_get_networks e tr (publicNetworkURL projectID) = Inr []))
   \<and> (http_get_networks e tr (publicNetworkURL projectID) = Inr [] \<longrightarrow>
        GetPublicNetworkID e projectID tr = (Panics IndexOutOfRange, tr @ [Get (publicNetworkURL projectID)]))
   \<and> (\<forall>n ns. http_get_networks e tr (publicNetworkURL projectID) = Inr (n # ns) \<longrightarrow>
        GetPublicNetworkID e projectID tr = (Returns (Inr (Network_ID n)), tr @ [Get (publicNetworkURL projectID)]))
   \<and> (\<forall>err. http_get_networks e tr (publicNetworkURL projectID) = Inl err \<longrightarrow>
        GetPublicNetworkID e projectID tr = (Returns (Inl err), tr @ [Get (publicNetworkURL projectID)]))"
  by (simp add: GetPublicNetworkID_def GetNetworks_def client_Get_def publicNetworkURL_def Let_def
      split: sum.splits list.splits)

theorem GetPublicNetworkID_partial_witness:
  "http_get_networks (sampleCloud\<lparr>http_get_networks := \<lambda>tr url. Inr []\<rparr>) [] (publicNetworkURL ''pr-1'') = Inr []
   \<and> GetPublicNetworkID (sampleCloud\<lparr>http_get_networks := \<lambda>tr url. Inr []\<rparr>) ''pr-1'' []
       = (Panics IndexOutOfRange, [Get (publicNetworkURL ''pr-1'')])
   \<and> http_get_networks sampleCloud [] (publicNetworkURL ''pr-1'') = Inr [extnet]
   \<and> GetPublicNetworkID sampleCloud ''pr-1'' [] = (Returns (Inr ''net-pub''), [Get (publicNetworkURL ''pr-1'')])"
proof -
  have a: "http_get_networks sampleCloud [] (publicNetworkURL ''pr-1'') = Inr [extnet]"
    by (simp add: sampleCloud_def publicNetworkURL_def)
  have b: "Network_ID extnet = ''net-pub''"
    by (simp add: extnet_def)
  from GetPublicNetworkID_partial [of "sampleCloud\<lparr>http_get_networks := \<lambda>tr url. Inr []\<rparr>" "''pr-1''" "[]"]
    GetPublicNetworkID_partial [of sampleCloud "''pr-1''" "[]"] a b
  show ?thesis by simp
qed

subsection \<open>Polling\<close>

lemma pollInstanceStatus_eq:
  assumes "client d = Some a"
  shows "pollInstanceStatus e d status v tr =
     (case http_get_instance e tr (instanceURL (ProjectID d) (InstanceID d)) of
        Inl err \<Rightarrow> (Panics NilDereference, None, tr @ [Get (instanceURL (ProjectID d) (InstanceID d))])
      | Inr i \<Rightarrow>
          (if Instance_Status i = ''ERROR''
           then Returns (True, Some (Errorf ''Instance creation failed. Instance is in ERROR state''))
           else if Instance_Status i = status then Returns (True, None)
           else Returns (False, None),
           Some i, tr @ [Get (instanceURL (ProjectID d) (InstanceID d))]))"
  using assms by (simp add: pollInstanceStatus_def GetInstance_eq split: sum.splits)


lemma waitLoop_pos:
  "0 < n \<Longrightarrow> waitLoop f maxAttempts waitInterval n v tr =
     (case f v tr of
        (Panics p, v', tr') \<Rightarrow> (Panics p, v', tr')
      | (Returns (stop, Some err), v', tr') \<Rightarrow> (Returns (Some err), v', tr')
      | (Returns (stop, None), v', tr') \<Rightarrow>
          if stop then (Returns None, v', tr')
          else waitLoop f maxAttempts waitInterval (n - 1) v' (tr' @ [Sleep waitInterval]))"
  by (cases n) (simp_all split: prod.splits go.splits option.splits)

lemma budget: "statusTimeout div 4 = 50"
  by (simp add: statusTimeout_def)

lemma Sprintf_nat_50: "Sprintf_nat 50 = ''50''"
  by (simp add: Sprintf_nat.simps)

lemma pollTrace_0: "pollTrace u 0 = []"
  by (simp add: pollTrace_def)

lemma pollTrace_Suc: "pollTrace u (Suc k) = Get u # Sleep 4 # pollTrace u k"
  by (simp add: pollTrace_def)

lemma polled_shift:
  "polled e d (tr @ [Get (instanceURL (ProjectID d) (InstanceID d)), Sleep 4]) k = polled e d tr (Suc k)"
  by (simp add: polled_def pollTrace_Suc)

lemma polled_0:
  "polled e d tr 0 = Some i \<Longrightarrow> http_get_instance e tr (instanceURL (ProjectID d) (InstanceID d)) = Inr i"
  by (simp add: polled_def pollTrace_0 split: sum.splits)

lemma polled_at:
  "polled e d tr k = Some i \<Longrightarrow>
     http_get_instance e (tr @ pollTrace (instanceURL (ProjectID d) (InstanceID d)) k)
       (instanceURL (ProjectID d) (InstanceID d)) = Inr i"
  by (simp add: polled_def split: sum.splits)

lemma waitLoop_keeps_waiting:
  assumes c: "client d = Some a"
    and w: "\<forall>k<n. \<exists>i. polled e d tr k = Some i \<and> Instance_Status i \<noteq> ''ERROR'' \<and> Instance_Status i \<noteq> status"
  shows "waitLoop (pollInstanceStatus e d status) m 4 (n + r) v tr
       = waitLoop (pollInstanceStatus e d status) m 4 r (if n = 0 then v else polled e d tr (n - 1))
           (tr @ pollTrace (instanceURL (ProjectID d) (InstanceID d)) n)"
  using w
proof (induction n arbitrary: tr v)
  case 0
  show ?case by (simp add: pollTrace_0)
next
  case (Suc n)
  let ?u = "instanceURL (ProjectID d) (InstanceID d)"
  from Suc.prems obtain i0 where i0: "polled e d tr 0 = Some i0"
    "Instance_Status i0 \<noteq> ''ERROR''" "Instance_Status i0 \<noteq> status"
    by auto
  have step: "waitLoop (pollInstanceStatus e d status) m 4 (Suc n + r) v tr
      = waitLoop (pollInstanceStatus e d status) m 4 (n + r) (Some i0) (tr @ [Get ?u, Sleep 4])"
    using c i0 by (simp add: pollInstanceStatus_eq polled_0)
  have "\<forall>k<n. \<exists>i. polled e d (tr @ [Get ?u, Sleep 4]) k = Some i
      \<and> Instance_Status i \<noteq> ''ERROR'' \<and> Instance_Status i \<noteq> status"
    using Suc.prems by (simp add: polled_shift)
  from Suc.IH [OF this, of "Some i0"]
  have "waitLoop (pollInstanceStatus e d status) m 4 (n + r) (Some i0) (tr @ [Get ?u, Sleep 4])
      = waitLoop (pollInstanceStatus e d status) m 4 r
          (if n = 0 then Some i0 else polled e d (tr @ [Get ?u, Sleep 4]) (n - 1))
          ((tr @ [Get ?u, Sleep 4]) @ pollTrace ?u n)" .
  moreover have "(if n = 0 then Some i0 else polled e d (tr @ [Get ?u, Sleep 4]) (n - 1))
      = polled e d tr n"
    using i0 by (cases n) (simp_all add: polled_shift)
  ultimately show ?case
    using step by (simp add: pollTrace_Suc)
qed

lemma gets_pollTrace: "length (filter isGet (pollTrace u k)) = k"
  by (induction k) (simp_all add: pollTrace_0 pollTrace_Suc)

lemma polled_statusesInOrder:
  "http_get_instance e = statusesInOrder ss \<Longrightarrow>
     polled e d [] k = Some (instanceIn (ss ! min k (length ss - 1)))"
  by (simp add: polled_def statusesInOrder_def gets_pollTrace)

lemma createdDriver_ids:
  "ProjectID createdDriver = ''pr-1''" "InstanceID createdDriver = ''i-1''"
  "client createdDriver = Some (API (Client [] [] [] []))"
  by (simp_all add: createdDriver_def)



text \<open>
  C2: the wait of \<^verbatim>\<open>Create\<close> for the status \<open>ACTIVE\<close>, on a driver whose client is set (as
  it is in \<^verbatim>\<open>Create\<close>). If the polls see \<open>BUILDING\<close>, \<open>BUILDING\<close>, \<open>ACTIVE\<close>, the wait
  succeeds at the third poll with the instance of that poll. If they see \<open>BUILDING\<close>,
  \<open>ERROR\<close>, it fails at the second poll and polls no further. If all 50 polls of the
  budget see \<open>BUILDING\<close>, each followed by a pause of 4 seconds, the wait fails with the
  error of the exhausted budget.
\<close>

theorem create_wait_polling:
  assumes c: "client d = Some a"
    and s1: "map (\<lambda>k. map_option Instance_Status (polled e1 d tr k)) [0, 1, 2]
               = [Some ''BUILDING'', Some ''BUILDING'', Some ''ACTIVE'']"
    and s2: "map (\<lambda>k. map_option Instance_Status (polled e2 d tr k)) [0, 1]
               = [Some ''BUILDING'', Some ''ERROR'']"
    and s3: "\<forall>k<50. map_option Instance_Status (polled e3 d tr k) = Some ''BUILDING''"
  shows "(\<exists>i. polled e1 d tr 2 = Some i
            \<and> waitForInstanceStatus e1 d ''ACTIVE'' tr
                = (Returns (Some i, None),
                   tr @ pollTrace (instanceURL (ProjectID d) (InstanceID d)) 2
                      @ [Get (instanceURL (ProjectID d) (InstanceID d))]))
       \<and> (\<exists>i. polled e2 d tr 1 = Some i
            \<and> waitForInstanceStatus e2 d ''ACTIVE'' tr
                = (Returns (Some i, Some (Errorf ''Instance creation failed. Instance is in ERROR state'')),
                   tr @ pollTrace (instanceURL (ProjectID d) (InstanceID d)) 1
                      @ [Get (instanceURL (ProjectID d) (InstanceID d))]))
       \<and> (\<exists>i. polled e3 d tr 49 = Some i
            \<and> waitForInstanceStatus e3 d ''ACTIVE'' tr
                = (Returns (Some i, Some (Errorf ''Maximum number of retries (50) exceeded'')),
                   tr @ pollTrace (instanceURL (ProjectID d) (InstanceID d)) 50))"
proof (intro conjI)
  let ?u = "instanceURL (ProjectID d) (InstanceID d)"
  let ?f1 = "pollInstanceStatus e1 d ''ACTIVE''"
  from s1 obtain i2 where i2: "polled e1 d tr 2 = Some i2" "Instance_Status i2 = ''ACTIVE''"
    by auto
  have "\<forall>k<2. \<exists>i. polled e1 d tr k = Some i \<and> Instance_Status i \<noteq> ''ERROR''
          \<and> Instance_Status i \<noteq> ''ACTIVE''"
  proof (intro allI impI)
    fix k :: nat
    assume "k < 2"
    then have "k = 0 \<or> k = 1" by arith
    with s1 show "\<exists>i. polled e1 d tr k = Some i \<and> Instance_Status i \<noteq> ''ERROR''
          \<and> Instance_Status i \<noteq> ''ACTIVE''"
      by auto
  qed
  from waitLoop_keeps_waiting [OF c this, of 50 48 None]
  have "waitLoop ?f1 50 4 50 None tr = waitLoop ?f1 50 4 48 (polled e1 d tr 1) (tr @ pollTrace ?u 2)"
    by simp
  also have "\<dots> = (Returns None, Some i2, tr @ pollTrace ?u 2 @ [Get ?u])"
    using c i2 by (simp add: waitLoop_pos pollInstanceStatus_eq polled_at)
  finally have "waitForInstanceStatus e1 d ''ACTIVE'' tr
      = (Returns (Some i2, None), tr @ pollTrace ?u 2 @ [Get ?u])"
    by (simp add: waitForInstanceStatus_def WaitForSpecificOrError_def budget)
  with i2 show "\<exists>i. polled e1 d tr 2 = Some i
            \<and> waitForInstanceStatus e1 d ''ACTIVE'' tr
                = (Returns (Some i, None), tr @ pollTrace ?u 2 @ [Get ?u])"
    by simp
next
  let ?u = "instanceURL (ProjectID d) (InstanceID d)"
  let ?f2 = "pollInstanceStatus e2 d ''ACTIVE''"
  from s2 obtain j where j: "polled e2 d tr 1 = Some j" "Instance_Status j = ''ERROR''"
    by auto
  have "\<forall>k<1. \<exists>i. polled e2 d tr k = Some i \<and> Instance_Status i \<noteq> ''ERROR''
          \<and> Instance_Status i \<noteq> ''ACTIVE''"
    using s2 by auto
  from waitLoop_keeps_waiting [OF c this, of 50 49 None]
  have "waitLoop ?f2 50 4 50 None tr = waitLoop ?f2 50 4 49 (polled e2 d tr 0) (tr @ pollTrace ?u 1)"
    by simp
  also have "\<dots> = (Returns (Some (Errorf ''Instance creation failed. Instance is in ERROR state'')),
      Some j, tr @ pollTrace ?u 1 @ [Get ?u])"
    using c j by (simp add: waitLoop_pos pollInstanceStatus_eq polled_at)
  finally have "waitForInstanceStatus e2 d ''ACTIVE'' tr
      = (Returns (Some j, Some (Errorf ''Instance creation failed. Instance is in ERROR state'')),
         tr @ pollTrace ?u 1 @ [Get ?u])"
    by (simp add: waitForInstanceStatus_def WaitForSpecificOrError_def budget)
  with j show "\<exists>i. polled e2 d tr 1 = Some i
            \<and> waitForInstanceStatus e2 d ''ACTIVE'' tr
                = (Returns (Some i, Some (Errorf ''Instance creation failed. Instance is in ERROR state'')),
                   tr @ pollTrace ?u 1 @ [Get ?u])"
    by simp
next
  let ?u = "instanceURL (ProjectID d) (InstanceID d)"
  let ?f3 = "pollInstanceStatus e3 d ''ACTIVE''"
  from s3 have "map_option Instance_Status (polled e3 d tr 49) = Some ''BUILDING''"
    by simp
  then obtain l where l: "polled e3 d tr 49 = Some l"
    by auto
  have "\<forall>k<50. \<exists>i. polled e3 d tr k = Some i \<and> Instance_Status i \<noteq> ''ERROR''
          \<and> Instance_Status i \<noteq> ''ACTIVE''"
    using s3 by auto
  from waitLoop_keeps_waiting [OF c this, of 50 0 None]
  have "waitLoop ?f3 50 4 50 None tr = waitLoop ?f3 50 4 0 (polled e3 d tr 49) (tr @ pollTrace ?u 50)"
    by simp
  also have "\<dots> = (Returns (Some (Errorf ''Maximum number of retries (50) exceeded'')),
      Some l, tr @ pollTrace ?u 50)"
    using l by (simp add: Sprintf_nat_50)
  finally have "waitForInstanceStatus e3 d ''ACTIVE'' tr
      = (Returns (Some l, Some (Errorf ''Maximum number of retries (50) exceeded'')),
         tr @ pollTrace ?u 50)"
    by (simp add: waitForInstanceStatus_def WaitForSpecificOrError_def budget)
  with l show "\<exists>i. polled e3 d tr 49 = Some i
            \<and> waitForInstanceStatus e3 d ''ACTIVE'' tr
                = (Returns (Some i, Some (Errorf ''Maximum number of retries (50) exceeded'')),
                   tr @ pollTrace ?u 50)"
    by simp
qed

theorem create_wait_polling_witness:
  "waitForInstanceStatus sampleCloud createdDriver ''ACTIVE'' []
     = (Returns (Some (instanceIn ''ACTIVE''), None),
        pollTrace (instanceURL ''pr-1'' ''i-1'') 2 @ [Get (instanceURL ''pr-1'' ''i-1'')])
   \<and> waitForInstanceStatus (sampleCloud\<lparr>http_get_instance := statusesInOrder [''BUILDING'', ''ERROR'']\<rparr>)
        createdDriver ''ACTIVE'' []
     = (Returns (Some (instanceIn ''ERROR''),
                 Some (Errorf ''Instance creation failed. Instance is in ERROR state'')),
        pollTrace (instanceURL ''pr-1'' ''i-1'') 1 @ [Get (instanceURL ''pr-1'' ''i-1'')])
   \<and> waitForInstanceStatus (sampleCloud\<lparr>http_get_instance := statusesInOrder [''BUILDING'']\<rparr>)
        createdDriver ''ACTIVE'' []
     = (Returns (Some (instanceIn ''BUILDING''),
                 Some (Errorf ''Maximum number of retries (50) exceeded'')),
        pollTrace (instanceURL ''pr-1'' ''i-1'') 50)"
proof -
  let ?e2 = "sampleCloud\<lparr>http_get_instance := statusesInOrder [''BUILDING'', ''ERROR'']\<rparr>"
  let ?e3 = "sampleCloud\<lparr>http_get_instance := statusesInOrder [''BUILDING'']\<rparr>"
  have g1: "http_get_instance sampleCloud = statusesInOrder [''BUILDING'', ''BUILDING'', ''ACTIVE'']"
    by (simp add: sampleCloud_def)
  have g2: "http_get_instance ?e2 = statusesInOrder [''BUILDING'', ''ERROR'']"
    by simp
  have g3: "http_get_instance ?e3 = statusesInOrder [''BUILDING'']"
    by simp
  have st: "Instance_Status (instanceIn s) = s" for s
    by (simp add: instanceIn_def)
  have s1: "map (\<lambda>k. map_option Instance_Status (polled sampleCloud createdDriver [] k)) [0, 1, 2]
               = [Some ''BUILDING'', Some ''BUILDING'', Some ''ACTIVE'']"
    by (simp add: polled_statusesInOrder [OF g1] st)
  have s2: "map (\<lambda>k. map_option Instance_Status (polled ?e2 createdDriver [] k)) [0, 1]
               = [Some ''BUILDING'', Some ''ERROR'']"
    by (simp add: polled_statusesInOrder [OF g2] st)
  have s3: "\<forall>k<50. map_option Instance_Status (polled ?e3 createdDriver [] k) = Some ''BUILDING''"
    by (simp add: polled_statusesInOrder [OF g3] st)
  from create_wait_polling [OF createdDriver_ids(3) s1 s2 s3]
  show ?thesis
    by (simp add: createdDriver_ids polled_statusesInOrder [OF g1] polled_statusesInOrder [OF g2]
        polled_statusesInOrder [OF g3])
qed

subsection \<open>Lookups by name or id\<close>















subsection \<open>Remove\<close>

lemma getClient_fields:
  "InstanceID (snd (getClient e d)) = InstanceID d"
  "ProjectID (snd (getClient e d)) = ProjectID d"
  "KeyPairID (snd (getClient e d)) = KeyPairID d"
  "KeyPairName (snd (getClient e d)) = KeyPairName d"
  "MachineName (snd (getClient e d)) = MachineName d"
  "BillingPeriod (snd (getClient e d)) = BillingPeriod d"
  "NetworkIDs (snd (getClient e d)) = NetworkIDs d"
  "PrivateNetworkName (snd (getClient e d)) = PrivateNetworkName d"
  by (simp_all add: getClient_def NewAPI_def split: option.splits)

lemma getClient_set: "client d = Some a \<Longrightarrow> getClient e d = (Inr a, d)"
  by (simp add: getClient_def)

text \<open>
  C5 says that for every driver state \<^verbatim>\<open>Remove\<close> deletes the instance, and deletes the
  key pair when its name starts with the machine name. Both deletions are guarded by the
  stored ids: a driver that was validated but holds no instance id and no key-pair id, with
  a key-pair name that starts with the machine name, is removed with success and without
  any request.
\<close>

theorem Remove_counterexample:
  "InstanceID (sampleDriver\<lparr>MachineName := ''node'', KeyPairName := ''node-0a1b2c''\<rparr>) = []
   \<and> KeyPairID (sampleDriver\<lparr>MachineName := ''node'', KeyPairName := ''node-0a1b2c''\<rparr>) = []
   \<and> HasPrefix ''node-0a1b2c'' ''node''
   \<and> fst (Remove sampleCloud (sampleDriver\<lparr>MachineName := ''node'', KeyPairName := ''node-0a1b2c''\<rparr>) []) = None
   \<and> snd (snd (Remove sampleCloud (sampleDriver\<lparr>MachineName := ''node'', KeyPairName := ''node-0a1b2c''\<rparr>) [])) = []"
  by (simp add: Remove_def getClient_def NewAPI_def sampleCloud_def sampleDriver_def configuredDriver_def
      SetConfigFromFlags_def NewDriver_def HasPrefix_def)

text \<open>
  C5, amended. With the API client at hand, \<^verbatim>\<open>Remove\<close> sends the deletion of the instance
  when the stored instance id is not empty, counts a remote not-found as success and stops
  with any other error of it. After that, if the key-pair name does not start with the
  machine name, or the stored key-pair id is empty, no key deletion is sent and the result
  is success; otherwise the key pair is deleted, a remote not-found again being success.
\<close>

theorem Remove_guarded:
  assumes "fst (getClient e d) = Inr c"
  shows "Remove e d tr =
     (let iu = instanceURL (ProjectID d) (InstanceID d);
          ku = sshkeyURL (ProjectID d) (KeyPairID d);
          r1 = (if InstanceID d = [] then None else notFoundIsSuccess (http_delete e tr iu));
          tr1 = (if InstanceID d = [] then tr else tr @ [Delete iu])
      in if r1 \<noteq> None then (r1, snd (getClient e d), tr1)
         else if \<not> HasPrefix (KeyPairName d) (MachineName d) \<or> KeyPairID d = []
           then (None, snd (getClient e d), tr1)
         else (notFoundIsSuccess (http_delete e tr1 ku), snd (getClient e d), tr1 @ [Delete ku]))"
proof -
  obtain d0 where g: "getClient e d = (Inr c, d0)"
    using assms by (cases "getClient e d") simp
  have f: "InstanceID d0 = InstanceID d" "ProjectID d0 = ProjectID d" "KeyPairID d0 = KeyPairID d"
    "KeyPairName d0 = KeyPairName d" "MachineName d0 = MachineName d"
    using getClient_fields [of e d] g by simp_all
  show ?thesis
    by (simp add: Remove_def g f DeleteInstance_eq DeleteSshkey_eq Let_def split: option.splits)
qed

theorem Remove_guarded_witness:
  "fst (getClient sampleCloud createdDriver) = Inr (API (Client [] [] [] []))
   \<and> HasPrefix (KeyPairName createdDriver) (MachineName createdDriver)
   \<and> Remove sampleCloud createdDriver []
       = (None, createdDriver, [Delete (instanceURL ''pr-1'' ''i-1''), Delete (sshkeyURL ''pr-1'' ''k-7'')])"
proof -
  have c: "client createdDriver = Some (API (Client [] [] [] []))"
    by (simp add: createdDriver_def)
  have g: "fst (getClient sampleCloud createdDriver) = Inr (API (Client [] [] [] []))"
    by (simp add: getClient_set [OF c])
  have f: "ProjectID createdDriver = ''pr-1''" "InstanceID createdDriver = ''i-1''"
    "KeyPairID createdDriver = ''k-7''" "KeyPairName createdDriver = ''node.1-key''"
    "MachineName createdDriver = ''node.1''"
    by (simp_all add: createdDriver_def sampleDriver_def configuredDriver_def SetConfigFromFlags_def)
  have h: "HasPrefix ''node.1-key'' ''node.1''"
    by (simp add: HasPrefix_def)
  have n: "instanceURL ''pr-1'' ''i-1'' \<noteq> sshkeyURL ''pr-1'' ''k-7''"
    by (simp add: instanceURL_def sshkeyURL_def)
  show ?thesis
    using Remove_guarded [OF g, of "[]"] g h n
    by (simp add: f getClient_set [OF c] sampleCloud_def notFoundIsSuccess_def Let_def)
qed

subsection \<open>PreCreateCheck\<close>

lemma scanProjectsByName_trace:
  "length tr \<le> length (snd (scanProjectsByName e name projects tr))"
proof (induction projects arbitrary: tr)
  case Nil
  show ?case by simp
next
  case (Cons p ps)
  have "length (tr @ [Get (''/cloud/project/'' @ p)])
      \<le> length (snd (scanProjectsByName e name ps (tr @ [Get (''/cloud/project/'' @ p)])))"
    by (rule Cons.IH)
  then show ?case
    by (simp add: GetProject_def client_Get_def split: sum.splits)
qed

lemma GetProjectByName_trace:
  "length tr < length (snd (GetProjectByName e name tr))"
proof -
  have "length (tr @ [Get ''/cloud/project''])
      \<le> length (snd (scanProjectsByName e name projects (tr @ [Get ''/cloud/project''])))" for projects
    by (rule scanProjectsByName_trace)
  then have "length tr < length (snd (scanProjectsByName e name projects (tr @ [Get ''/cloud/project''])))"
    for projects
    by (simp add: less_eq_Suc_le)
  then show ?thesis
    by (simp add: GetProjectByName_def GetProjects_def GetProject_def client_Get_def
        split: sum.splits option.splits)
qed

lemma projectNames_trace:
  "length tr \<le> length (snd (projectNames e projects tr))"
proof (induction projects arbitrary: tr)
  case Nil
  show ?case by simp
next
  case (Cons p ps)
  have "length (tr @ [Get (''/cloud/project/'' @ p)])
      \<le> length (snd (projectNames e ps (tr @ [Get (''/cloud/project/'' @ p)])))"
    by (rule Cons.IH)
  then show ?case
    by (auto simp: GetProject_def client_Get_def split: sum.splits prod.splits)
qed

lemma GetProjectByName_sends:
  "GetProjectByName e name tr = (r, tr') \<Longrightarrow> length tr < length tr'"
  using GetProjectByName_trace [of tr e name] by simp

lemma projectNames_grows:
  "projectNames e projects tr = (names, tr') \<Longrightarrow> length tr \<le> length tr'"
  using projectNames_trace [of tr e projects] by simp

lemma validateProject_trace:
  "validateProject e d tr = (r, d', tr') \<Longrightarrow> length tr < length tr'"
  by (auto simp: validateProject_def GetProjects_def client_Get_def
      split: sum.splits prod.splits if_splits
      dest!: GetProjectByName_sends projectNames_grows)

lemma validateRegion_trace:
  "validateRegion e d tr = (r, d', tr') \<Longrightarrow> length tr < length tr'"
  by (auto simp: validateRegion_def GetRegions_def client_Get_def split: sum.splits if_splits)

lemma validateFlavor_trace:
  "validateFlavor e d tr = (r, d', tr') \<Longrightarrow> length tr < length tr'"
  by (auto simp: validateFlavor_def GetFlavorByName_def GetFlavors_def client_Get_def
      split: sum.splits option.splits)

lemma validateImage_trace:
  "validateImage e d tr = (r, d', tr') \<Longrightarrow> length tr < length tr'"
  by (auto simp: validateImage_def GetImageByName_def GetImages_def client_Get_def
      split: sum.splits option.splits)

lemma validatePrivateNetwork_trace:
  "validatePrivateNetwork e d tr = (r, d', tr') \<Longrightarrow> length tr \<le> length tr'"
  by (auto simp: validatePrivateNetwork_def GetPrivateNetworkByName_def GetPublicNetworkID_def
      GetNetworks_def client_Get_def Let_def
      split: sum.splits option.splits if_splits list.splits)

lemma PreCreateCheck_sends:
  assumes "fst (getClient e d) = Inr c"
    and "BillingPeriod d = ''monthly'' \<or> BillingPeriod d = ''hourly''"
  shows "length tr < length (snd (snd (PreCreateCheck e d tr)))"
proof -
  obtain d0 where g: "getClient e d = (Inr c, d0)"
    using assms(1) by (cases "getClient e d") simp
  have b: "BillingPeriod d0 = ''monthly'' \<or> BillingPeriod d0 = ''hourly''"
    using getClient_fields(6) [of e d] g assms(2) by simp
  show ?thesis
    using b
    by (auto simp: PreCreateCheck_def g
        split: prod.splits option.splits go.splits
        dest!: validateProject_trace validateRegion_trace validateFlavor_trace validateImage_trace
          validatePrivateNetwork_trace)
qed

lemma PreCreateCheck_success:
  assumes "PreCreateCheck e d tr = (Returns None, d', tr')"
  shows "\<exists>c d0 d1 tr1 d2 tr2 d3 tr3 d4 tr4 d5.
      getClient e d = (Inr c, d0)
      \<and> (BillingPeriod d0 = ''monthly'' \<or> BillingPeriod d0 = ''hourly'')
      \<and> validateProject e d0 tr = (None, d1, tr1)
      \<and> validateRegion e d1 tr1 = (None, d2, tr2)
      \<and> validateFlavor e d2 tr2 = (None, d3, tr3)
      \<and> validateImage e d3 tr3 = (None, d4, tr4)
      \<and> validatePrivateNetwork e d4 tr4 = (Returns None, d5, tr')
      \<and> d' = selectKeyPair e d5"
  using assms
  by (auto simp: PreCreateCheck_def split: prod.splits sum.splits option.splits go.splits if_splits)

lemma validateProject_frame:
  "validateProject e d tr = (r, d', tr') \<Longrightarrow>
     NetworkIDs d' = NetworkIDs d \<and> PrivateNetworkName d' = PrivateNetworkName d
     \<and> KeyPairName d' = KeyPairName d \<and> MachineName d' = MachineName d"
  by (auto simp: validateProject_def split: prod.splits sum.splits if_splits)

lemma validateRegion_frame:
  "validateRegion e d tr = (r, d', tr') \<Longrightarrow> d' = d"
  by (auto simp: validateRegion_def split: prod.splits sum.splits if_splits)

lemma validateFlavor_frame:
  "validateFlavor e d tr = (r, d', tr') \<Longrightarrow>
     NetworkIDs d' = NetworkIDs d \<and> PrivateNetworkName d' = PrivateNetworkName d
     \<and> KeyPairName d' = KeyPairName d \<and> MachineName d' = MachineName d"
  by (auto simp: validateFlavor_def split: prod.splits sum.splits)

lemma validateImage_frame:
  "validateImage e d tr = (r, d', tr') \<Longrightarrow>
     NetworkIDs d' = NetworkIDs d \<and> PrivateNetworkName d' = PrivateNetworkName d
     \<and> KeyPairName d' = KeyPairName d \<and> MachineName d' = MachineName d"
  by (auto simp: validateImage_def split: prod.splits sum.splits)

lemma validatePrivateNetwork_frame:
  "validatePrivateNetwork e d tr = (r, d', tr') \<Longrightarrow>
     ProjectID d' = ProjectID d \<and> KeyPairName d' = KeyPairName d \<and> MachineName d' = MachineName d"
  by (auto simp: validatePrivateNetwork_def Let_def split: prod.splits sum.splits go.splits if_splits)

lemma validatePrivateNetwork_success:
  assumes "validatePrivateNetwork e d tr = (Returns None, d', tr')"
  shows "(PrivateNetworkName d \<noteq> [] \<longrightarrow>
           (\<exists>privateNetwork publicNetworkID tr1.
               GetPrivateNetworkByName e (ProjectID d) (PrivateNetworkName d) tr = (Inr privateNetwork, tr1)
               \<and> GetPublicNetworkID e (ProjectID d) tr1 = (Returns (Inr publicNetworkID), tr')
               \<and> NetworkIDs d' = NetworkIDs d @ [Network_ID privateNetwork, publicNetworkID]))
       \<and> (PrivateNetworkName d = [] \<longrightarrow> NetworkIDs d' = NetworkIDs d)"
  using assms
  by (auto simp: validatePrivateNetwork_def Let_def split: prod.splits sum.splits go.splits if_splits)

lemma selectKeyPair_frame:
  "NetworkIDs (selectKeyPair e d) = NetworkIDs d" "ProjectID (selectKeyPair e d) = ProjectID d"
  "MachineName (selectKeyPair e d) = MachineName d"
  by (simp_all add: selectKeyPair_def Let_def)

lemma selectKeyPair_generated:
  "KeyPairName d = [] \<Longrightarrow>
     KeyPairName (selectKeyPair e d) = sanitizeKeyPairName (MachineName d @ ''-'' @ GenerateRandomID e)"
  by (simp add: selectKeyPair_def Let_def)

lemma PreCreateCheck_networks:
  assumes "PreCreateCheck e d tr = (Returns None, d', tr')"
  shows "(PrivateNetworkName d \<noteq> [] \<longrightarrow>
           (\<exists>privateNetwork publicNetworkID tr1 tr2.
               GetPrivateNetworkByName e (ProjectID d') (PrivateNetworkName d) tr1 = (Inr privateNetwork, tr2)
               \<and> GetPublicNetworkID e (ProjectID d') tr2 = (Returns (Inr publicNetworkID), tr')
               \<and> NetworkIDs d' = NetworkIDs d @ [Network_ID privateNetwork, publicNetworkID]))
       \<and> (PrivateNetworkName d = [] \<longrightarrow> NetworkIDs d' = NetworkIDs d)"
proof -
  from PreCreateCheck_success [OF assms]
  obtain c d0 d1 tr1 d2 tr2 d3 tr3 d4 tr4 d5 where
    g: "getClient e d = (Inr c, d0)"
    and v1: "validateProject e d0 tr = (None, d1, tr1)"
    and v2: "validateRegion e d1 tr1 = (None, d2, tr2)"
    and v3: "validateFlavor e d2 tr2 = (None, d3, tr3)"
    and v4: "validateImage e d3 tr3 = (None, d4, tr4)"
    and v5: "validatePrivateNetwork e d4 tr4 = (Returns None, d5, tr')"
    and d': "d' = selectKeyPair e d5"
    by blast
  have f0: "NetworkIDs d0 = NetworkIDs d" "PrivateNetworkName d0 = PrivateNetworkName d"
    using getClient_fields [of e d] g by simp_all
  have f4: "NetworkIDs d4 = NetworkIDs d" "PrivateNetworkName d4 = PrivateNetworkName d"
    using f0 validateProject_frame [OF v1] validateRegion_frame [OF v2]
      validateFlavor_frame [OF v3] validateImage_frame [OF v4]
    by simp_all
  have p: "ProjectID d' = ProjectID d4" "NetworkIDs d' = NetworkIDs d5"
    using d' validatePrivateNetwork_frame [OF v5] by (simp_all add: selectKeyPair_frame)
  from validatePrivateNetwork_success [OF v5] show ?thesis
    unfolding f4 p by blast
qed

lemma sampleDriver_fields:
  "client sampleDriver = None" "BillingPeriod sampleDriver = ''hourly''"
  "ProjectName sampleDriver = ''acme''" "RegionName sampleDriver = ''GRA1''"
  "FlavorName sampleDriver = ''b2-7''" "ImageID sampleDriver = ''Ubuntu 20.04''"
  "PrivateNetworkName sampleDriver = []" "KeyPairName sampleDriver = []"
  "MachineName sampleDriver = ''node.1''" "StorePath sampleDriver = ''/store''"
  "NetworkIDs sampleDriver = []" "Endpoint sampleDriver = []"
  "ApplicationKey sampleDriver = []" "ApplicationSecret sampleDriver = []"
  "ConsumerKey sampleDriver = []"
  by (simp_all add: sampleDriver_def configuredDriver_def SetConfigFromFlags_def NewDriver_def
      sampleFlags_def)

lemma sample_getClient:
  "getClient sampleCloud sampleDriver
     = (Inr (API (Client [] [] [] [])), sampleDriver\<lparr>client := Some (API (Client [] [] [] []))\<rparr>)"
  by (simp add: getClient_def NewAPI_def sampleDriver_fields sampleCloud_def)

lemmas validate_defs =
  PreCreateCheck_def getClient_def NewAPI_def validateProject_def validateRegion_def
  validateFlavor_def validateImage_def validatePrivateNetwork_def selectKeyPair_def
  ResolveStorePath_def sanitizeKeyPairName_def
  GetProjectByName_def GetProjects_def GetProject_def GetRegions_def
  GetFlavorByName_def GetFlavors_def GetImageByName_def GetImages_def
  GetPrivateNetworkByName_def GetPublicNetworkID_def GetNetworks_def client_Get_def Let_def

lemmas sample_defs =
  sampleCloud_def acme_def b2_7_def ubuntu_def vrack_def extnet_def

lemma sample_PreCreateCheck:
  "PreCreateCheck sampleCloud sampleDriver []
     = (Returns None,
        sampleDriver\<lparr> client := Some (API (Client [] [] [] [])), ProjectID := ''pr-1'',
          FlavorID := ''f-9'', ImageID := ''im-4'', KeyPairName := ''node_1-0a1b2c'',
          SSHKeyPath := ''/store/machines/node.1/node_1-0a1b2c'' \<rparr>,
        [Get ''/cloud/project'', Get ''/cloud/project/pr-1'', Get ''/cloud/project/pr-1/region'',
         Get ''/cloud/project/pr-1/flavor?region=GRA1'',
         Get ''/cloud/project/pr-1/image?osType=linux&region=GRA1''])"
  by (simp add: validate_defs sample_defs sampleDriver_fields)

lemma private_PreCreateCheck:
  "fst (PreCreateCheck sampleCloud (configuredDriver privateFlags ''node.1'' ''/store'') []) = Returns None"
  "NetworkIDs (fst (snd (PreCreateCheck sampleCloud (configuredDriver privateFlags ''node.1'' ''/store'') [])))
     = [''net-priv'', ''net-pub'']"
  by (simp_all add: validate_defs sample_defs configuredDriver_def SetConfigFromFlags_def NewDriver_def
      privateFlags_def sampleFlags_def)

lemma sanitize_no_dot: "CHR ''.'' \<notin> set (sanitizeKeyPairName s)"
  by (auto simp: sanitizeKeyPairName_def)

lemma sanitized_not_prefixed:
  assumes "CHR ''.'' \<in> set m"
  shows "\<not> HasPrefix (sanitizeKeyPairName (m @ rest)) m"
proof
  assume "HasPrefix (sanitizeKeyPairName (m @ rest)) m"
  then have "take (length m) (sanitizeKeyPairName (m @ rest)) = m"
    by (simp add: HasPrefix_def)
  then have "sanitizeKeyPairName m = m"
    by (simp add: sanitizeKeyPairName_def take_map)
  with sanitize_no_dot [of m] assms show False
    by simp
qed

lemma Remove_keeps_key:
  assumes "\<not> HasPrefix (KeyPairName d) (MachineName d)"
  shows "snd (snd (Remove e d tr)) = tr
       \<or> snd (snd (Remove e d tr)) = tr @ [Delete (instanceURL (ProjectID d) (InstanceID d))]"
proof (cases "getClient e d")
  case (Pair r d0)
  have f: "InstanceID d0 = InstanceID d" "ProjectID d0 = ProjectID d"
    "KeyPairName d0 = KeyPairName d" "MachineName d0 = MachineName d"
    using getClient_fields [of e d] Pair by simp_all
  show ?thesis
    using assms
    by (cases r) (simp_all add: Remove_def Pair f DeleteInstance_eq split: option.splits)
qed

text \<open>
  C7: once the API client is at hand, \<^verbatim>\<open>PreCreateCheck\<close> stops with the invalid-billing-period
  error, before any request, exactly when the billing period is neither \<open>hourly\<close> nor
  \<open>monthly\<close>; with one of the two it goes on to query the remote side. The comparison is
  on the exact string, so \<open>Hourly\<close> and the empty string are rejected.
\<close>

theorem billing_period_validation:
  assumes "fst (getClient e d) = Inr c"
  shows "((PreCreateCheck e d tr
            = (Returns (Some (invalidBillingPeriod (BillingPeriod d))), snd (getClient e d), tr))
          = (BillingPeriod d \<notin> {''hourly'', ''monthly''}))
       \<and> (BillingPeriod d \<in> {''hourly'', ''monthly''} \<longrightarrow>
            length tr < length (snd (snd (PreCreateCheck e d tr))))"
proof -
  obtain d0 where g: "getClient e d = (Inr c, d0)"
    using assms by (cases "getClient e d") simp
  have b: "BillingPeriod d0 = BillingPeriod d"
    using getClient_fields(6) [of e d] g by simp
  have rejected: "PreCreateCheck e d tr
      = (Returns (Some (invalidBillingPeriod (BillingPeriod d))), snd (getClient e d), tr)"
    if "BillingPeriod d \<notin> {''hourly'', ''monthly''}"
    using that by (simp add: PreCreateCheck_def g b invalidBillingPeriod_def)
  have accepted: "length tr < length (snd (snd (PreCreateCheck e d tr)))"
    if "BillingPeriod d \<in> {''hourly'', ''monthly''}"
    using that PreCreateCheck_sends [OF assms, of tr] by auto
  from rejected accepted show ?thesis
    by (cases "BillingPeriod d \<in> {''hourly'', ''monthly''}") auto
qed

theorem billing_period_validation_witness:
  "fst (getClient sampleCloud sampleDriver) = Inr (API (Client [] [] [] []))
   \<and> PreCreateCheck sampleCloud (sampleDriver\<lparr>BillingPeriod := ''Hourly''\<rparr>) []
       = (Returns (Some (invalidBillingPeriod ''Hourly'')),
          snd (getClient sampleCloud (sampleDriver\<lparr>BillingPeriod := ''Hourly''\<rparr>)), [])
   \<and> PreCreateCheck sampleCloud (sampleDriver\<lparr>BillingPeriod := []\<rparr>) []
       = (Returns (Some (invalidBillingPeriod [])),
          snd (getClient sampleCloud (sampleDriver\<lparr>BillingPeriod := []\<rparr>)), [])
   \<and> 0 < length (snd (snd (PreCreateCheck sampleCloud sampleDriver [])))
   \<and> fst (PreCreateCheck sampleCloud sampleDriver []) = Returns None
   \<and> 0 < length (snd (snd (PreCreateCheck sampleCloud (sampleDriver\<lparr>BillingPeriod := ''monthly''\<rparr>) [])))"
proof -
  have g: "fst (getClient sampleCloud (sampleDriver\<lparr>BillingPeriod := b\<rparr>)) = Inr (API (Client [] [] [] []))"
    for b
    by (simp add: getClient_def NewAPI_def sampleDriver_fields sampleCloud_def)
  have g0: "fst (getClient sampleCloud sampleDriver) = Inr (API (Client [] [] [] []))"
    by (simp add: sample_getClient)
  from billing_period_validation [OF g, of "''Hourly''" "[]"]
    billing_period_validation [OF g, of "[]" "[]"]
    billing_period_validation [OF g, of "''monthly''" "[]"]
    billing_period_validation [OF g0, of "[]"]
    g0
  show ?thesis
    by (simp add: sampleDriver_fields sample_PreCreateCheck)
qed

text \<open>
  C4: for a driver configured from flags, after a successful \<^verbatim>\<open>PreCreateCheck\<close>: if a
  private network name was given, the network ids are exactly two, the id of the private
  network that \<^verbatim>\<open>GetPrivateNetworkByName\<close> resolved followed by the id that
  \<^verbatim>\<open>GetPublicNetworkID\<close> returned for the project; if none was given the list is empty.
\<close>

theorem PreCreateCheck_NetworkIDs:
  assumes "PreCreateCheck e (configuredDriver flags machineName storePath) tr = (Returns None, d', tr')"
  shows "(flag_String flags ''ovh-private-network'' \<noteq> [] \<longrightarrow>
           (\<exists>privateNetwork publicNetworkID tr1 tr2.
               GetPrivateNetworkByName e (ProjectID d') (flag_String flags ''ovh-private-network'') tr1
                 = (Inr privateNetwork, tr2)
               \<and> GetPublicNetworkID e (ProjectID d') tr2 = (Returns (Inr publicNetworkID), tr')
               \<and> NetworkIDs d' = [Network_ID privateNetwork, publicNetworkID]))
       \<and> (flag_String flags ''ovh-private-network'' = [] \<longrightarrow> NetworkIDs d' = [])"
proof -
  have "NetworkIDs (configuredDriver flags machineName storePath) = []"
    "PrivateNetworkName (configuredDriver flags machineName storePath)
       = flag_String flags ''ovh-private-network''"
    by (simp_all add: configuredDriver_def SetConfigFromFlags_def NewDriver_def)
  with PreCreateCheck_networks [OF assms] show ?thesis
    by simp
qed

theorem PreCreateCheck_NetworkIDs_witness:
  "flag_String sampleFlags ''ovh-private-network'' = []
   \<and> fst (PreCreateCheck sampleCloud (configuredDriver sampleFlags ''node.1'' ''/store'') []) = Returns None
   \<and> NetworkIDs (fst (snd (PreCreateCheck sampleCloud (configuredDriver sampleFlags ''node.1'' ''/store'') [])))
       = []
   \<and> flag_String privateFlags ''ovh-private-network'' = ''vrack''
   \<and> fst (PreCreateCheck sampleCloud (configuredDriver privateFlags ''node.1'' ''/store'') []) = Returns None
   \<and> NetworkIDs (fst (snd (PreCreateCheck sampleCloud (configuredDriver privateFlags ''node.1'' ''/store'') [])))
       = [Network_ID vrack, Network_ID extnet]"
proof -
  let ?A = "PreCreateCheck sampleCloud (configuredDriver sampleFlags ''node.1'' ''/store'') []"
  let ?B = "PreCreateCheck sampleCloud (configuredDriver privateFlags ''node.1'' ''/store'') []"
  have a: "fst ?A = Returns None"
    using sample_PreCreateCheck by (simp add: sampleDriver_def)
  then have a': "?A = (Returns None, fst (snd ?A), snd (snd ?A))"
    by (metis prod.collapse)
  have b: "fst ?B = Returns None"
    by (rule private_PreCreateCheck)
  then have b': "?B = (Returns None, fst (snd ?B), snd (snd ?B))"
    by (metis prod.collapse)
  have fa: "flag_String sampleFlags ''ovh-private-network'' = []"
    by (simp add: sampleFlags_def)
  have fb: "flag_String privateFlags ''ovh-private-network'' = ''vrack''"
    by (simp add: privateFlags_def)
  have n: "Network_ID vrack = ''net-priv''" "Network_ID extnet = ''net-pub''"
    by (simp_all add: vrack_def extnet_def)
  from PreCreateCheck_NetworkIDs [OF a'] fa have "NetworkIDs (fst (snd ?A)) = []"
    by simp
  moreover from PreCreateCheck_NetworkIDs [OF b'] fb
  have "length (NetworkIDs (fst (snd ?B))) = 2"
    by auto
  ultimately show ?thesis
    using a b fa fb by (simp add: n private_PreCreateCheck)
qed

text \<open>
  C9: if the machine name contains a dot and no ssh-key name is given, the key-pair name
  that a successful \<^verbatim>\<open>PreCreateCheck\<close> generates is the machine name, a dash and the random
  id with every dot replaced by an underscore; it holds no dot and so does not start with
  the machine name. In every later state with this key-pair name and machine name,
  \<^verbatim>\<open>Remove\<close> sends at most the deletion of the instance and never one of the key.
\<close>

theorem generated_key_is_kept:
  assumes dot: "CHR ''.'' \<in> set (MachineName d)"
    and nokey: "KeyPairName d = []"
    and ok: "PreCreateCheck e d tr = (Returns None, d', tr')"
  shows "KeyPairName d' = sanitizeKeyPairName (MachineName d @ ''-'' @ GenerateRandomID e)
       \<and> CHR ''.'' \<notin> set (KeyPairName d')
       \<and> MachineName d' = MachineName d
       \<and> \<not> HasPrefix (KeyPairName d') (MachineName d')
       \<and> (\<forall>e2 d2 tr2. KeyPairName d2 = KeyPairName d' \<and> MachineName d2 = MachineName d' \<longrightarrow>
             snd (snd (Remove e2 d2 tr2)) = tr2
             \<or> snd (snd (Remove e2 d2 tr2)) = tr2 @ [Delete (instanceURL (ProjectID d2) (InstanceID d2))])"
proof -
  from PreCreateCheck_success [OF ok]
  obtain c d0 d1 tr1 d2 tr2 d3 tr3 d4 tr4 d5 where
    g: "getClient e d = (Inr c, d0)"
    and v1: "validateProject e d0 tr = (None, d1, tr1)"
    and v2: "validateRegion e d1 tr1 = (None, d2, tr2)"
    and v3: "validateFlavor e d2 tr2 = (None, d3, tr3)"
    and v4: "validateImage e d3 tr3 = (None, d4, tr4)"
    and v5: "validatePrivateNetwork e d4 tr4 = (Returns None, d5, tr')"
    and d': "d' = selectKeyPair e d5"
    by blast
  have f0: "KeyPairName d0 = KeyPairName d" "MachineName d0 = MachineName d"
    using getClient_fields [of e d] g by simp_all
  have f5: "KeyPairName d5 = []" "MachineName d5 = MachineName d"
    using f0 nokey validateProject_frame [OF v1] validateRegion_frame [OF v2]
      validateFlavor_frame [OF v3] validateImage_frame [OF v4] validatePrivateNetwork_frame [OF v5]
    by simp_all
  have k: "KeyPairName d' = sanitizeKeyPairName (MachineName d @ ''-'' @ GenerateRandomID e)"
    using d' f5 by (simp add: selectKeyPair_generated)
  have m: "MachineName d' = MachineName d"
    using d' f5 by (simp add: selectKeyPair_frame)
  have n: "\<not> HasPrefix (KeyPairName d') (MachineName d')"
    unfolding k m using dot by (rule sanitized_not_prefixed)
  have r: "snd (snd (Remove e2 x tr2)) = tr2
      \<or> snd (snd (Remove e2 x tr2)) = tr2 @ [Delete (instanceURL (ProjectID x) (InstanceID x))]"
    if "KeyPairName x = KeyPairName d' \<and> MachineName x = MachineName d'" for e2 x tr2
    using that n Remove_keeps_key [of x e2 tr2] by simp
  from k m n r show ?thesis
    by (simp add: sanitize_no_dot)
qed

theorem generated_key_is_kept_witness:
  "CHR ''.'' \<in> set (MachineName sampleDriver)
   \<and> KeyPairName sampleDriver = []
   \<and> fst (PreCreateCheck sampleCloud sampleDriver []) = Returns None
   \<and> KeyPairName (fst (snd (PreCreateCheck sampleCloud sampleDriver []))) = ''node_1-0a1b2c''
   \<and> MachineName (fst (snd (PreCreateCheck sampleCloud sampleDriver []))) = ''node.1''
   \<and> \<not> HasPrefix ''node_1-0a1b2c'' ''node.1''
   \<and> snd (snd (Remove sampleCloud
        ((fst (snd (PreCreateCheck sampleCloud sampleDriver [])))\<lparr>InstanceID := ''i-1'', KeyPairID := ''k-7''\<rparr>)
        []))
       = [Delete (instanceURL ''pr-1'' ''i-1'')]"
proof -
  let ?V = "PreCreateCheck sampleCloud sampleDriver []"
  let ?d = "(fst (snd ?V))\<lparr>InstanceID := ''i-1'', KeyPairID := ''k-7''\<rparr>"
  have dot: "CHR ''.'' \<in> set (MachineName sampleDriver)"
    by (simp add: sampleDriver_fields)
  have nokey: "KeyPairName sampleDriver = []"
    by (simp add: sampleDriver_fields)
  have ok: "?V = (Returns None, fst (snd ?V), snd (snd ?V))"
    by (simp add: sample_PreCreateCheck)
  note w = generated_key_is_kept [OF dot nokey ok]
  have k: "KeyPairName (fst (snd ?V)) = ''node_1-0a1b2c''"
    using w by (simp add: sampleDriver_fields sampleCloud_def sanitizeKeyPairName_def)
  have m: "MachineName (fst (snd ?V)) = ''node.1''"
    using w by (simp add: sampleDriver_fields)
  from w have "\<not> HasPrefix (KeyPairName (fst (snd ?V))) (MachineName (fst (snd ?V)))"
    by blast
  then have n: "\<not> HasPrefix ''node_1-0a1b2c'' ''node.1''"
    unfolding k m .
  have d: "fst (snd ?V) = sampleDriver\<lparr> client := Some (API (Client [] [] [] [])),
      ProjectID := ''pr-1'', FlavorID := ''f-9'', ImageID := ''im-4'',
      KeyPairName := ''node_1-0a1b2c'', SSHKeyPath := ''/store/machines/node.1/node_1-0a1b2c'' \<rparr>"
    by (simp add: sample_PreCreateCheck)
  have del: "http_delete sampleCloud [] u = None" for u
    by (simp add: sampleCloud_def)
  have r: "snd (snd (Remove sampleCloud ?d [])) = [Delete (instanceURL ''pr-1'' ''i-1'')]"
    unfolding d
    by (simp add: Remove_def getClient_def DeleteInstance_eq sampleDriver_fields HasPrefix_def del
        notFoundIsSuccess_def)
  have v: "fst ?V = Returns None"
    by (simp add: sample_PreCreateCheck)
  from dot nokey v k m n r show ?thesis
    by blast
qed

end
